theory Spec2Isabelle
  imports Complex_Main "HOL-Library.Log_Nat" "HOL-Library.Multiset"
begin

section \<open>JavaScript numbers\<close>

text \<open>
  A finite JavaScript number is an IEEE 754 binary64 value, hence a rational. The result of
  an arithmetic operation is the exact result rounded to the nearest binary64 value, ties to
  even (\<open>RN\<close>). The exponent range is not modelled: every value below lies between
  \<open>2\<^sup>-\<^sup>5\<^sup>3\<close> and \<open>2\<^sup>7\<close>, far from overflow and from the subnormal range.
\<close>

definition ilog2 :: "rat \<Rightarrow> int" where
  \<comment> \<open>the binade of a positive rational: \<open>2 powi ilog2 q \<le> q < 2 powi (ilog2 q + 1)\<close>\<close>
  "ilog2 q = (let (a, b) = quotient_of q; d = bitlen a - bitlen b
              in if 2 powi d \<le> q then d else d - 1)"

definition round_ties_even :: "rat \<Rightarrow> int" where
  "round_ties_even m =
     (let f = \<lfloor>m\<rfloor>; d = m - of_int f
      in if d < 1 / 2 then f else if 1 / 2 < d then f + 1
         else if even f then f else f + 1)"

definition RN :: "rat \<Rightarrow> rat" where
  \<comment> \<open>round to 53 significant bits\<close>
  "RN q = (if q = 0 then 0
           else let e = ilog2 \<bar>q\<bar> - 52
                in sgn q * of_int (round_ties_even (\<bar>q\<bar> * 2 powi (- e))) * 2 powi e)"

definition Math_round :: "rat \<Rightarrow> int" where
  \<comment> \<open>\<open>Math.round\<close>: the nearest integer, a tie going towards \<open>+\<infinity>\<close>\<close>
  "Math_round x = \<lfloor>x + 1 / 2\<rfloor>"

datatype js_error = TypeError

definition reduce :: "('a \<Rightarrow> 'a \<Rightarrow> 'a) \<Rightarrow> 'a list \<Rightarrow> js_error + 'a" where
  \<comment> \<open>\<open>Array.prototype.reduce\<close> with no initial value: the first element starts the
      accumulator, and an empty array throws\<close>
  "reduce f xs = (case xs of [] \<Rightarrow> Inl TypeError | x # rest \<Rightarrow> Inr (foldl f x rest))"

section \<open>Tally presenter\<close>

text \<open>The \<open>Option\<close> interface of \<open>app/polls/[id]/page.tsx\<close>: an option with its vote count.\<close>

record vote_option =
  vo_id :: string
  vo_text :: string
  vo_position :: int
  vo_votes :: nat


definition getOptionPercentage :: "nat \<Rightarrow> nat \<Rightarrow> int" where
  \<comment> \<open>\<open>page.tsx\<close> lines 127 to 130:
      \<open>if (total === 0) return 0; return Math.round((votes / total) * 100)\<close>\<close>
  "getOptionPercentage votes tot =
     (if tot = 0 then 0
      else Math_round (RN (RN (of_nat votes / of_nat tot) * 100)))"

definition totalVotes_of :: "vote_option list \<Rightarrow> nat" where
  \<comment> \<open>\<open>options.reduce((sum, option) => sum + option.votes, 0)\<close>
      (\<open>vote/route.ts\<close> line 109, \<open>voting.test.ts\<close> line 36)\<close>
  "totalVotes_of os = foldl (\<lambda>sum option. sum + vo_votes option) 0 os"


definition winner :: "vote_option list \<Rightarrow> js_error + vote_option" where
  \<comment> \<open>\<open>voting.test.ts\<close> lines 100 to 102:
      \<open>options.reduce((prev, current) => prev.votes > current.votes ? prev : current)\<close>\<close>
  "winner os = reduce (\<lambda>prev current. if vo_votes prev > vo_votes current then prev else current) os"

section \<open>Poll store\<close>

text \<open>
  The store is the external relational database. Its tables and constraints are those of
  the schema script (\<open>create table polls\<close>, \<open>options\<close>, \<open>votes\<close>): a primary key
  \<open>id\<close> generated by \<open>gen_random_uuid()\<close> on every table, foreign keys with
  \<open>on delete cascade\<close>, and \<open>unique(poll_id, visitor_id)\<close> on votes. A table is the list
  of its rows. Every call of the client returns data or an error; an error that is not a
  constraint violation (the store cannot be reached, the request is refused) is the flag
  each operation takes first.
\<close>

type_synonym uuid = string

record poll_row =
  p_id :: uuid
  p_user_id :: uuid
  p_question :: string
  p_created_at :: nat

record option_row =
  o_id :: uuid
  o_poll_id :: uuid
  o_text :: string
  o_position :: int

record vote_row =
  v_id :: uuid
  v_poll_id :: uuid
  v_option_id :: uuid
  v_visitor_id :: string
  v_created_at :: nat

record store =
  polls :: "poll_row list"
  options :: "option_row list"
  votes :: "vote_row list"

datatype db_error =
  Unreachable | NoRows | MultipleRows | PrimaryKeyViolation | UniqueViolation
  | ForeignKeyViolation

definition single :: "'a list \<Rightarrow> db_error + 'a" where
  \<comment> \<open>\<open>.single()\<close>: exactly one row, or an error\<close>
  "single rows = (case rows of [] \<Rightarrow> Inl NoRows | [row] \<Rightarrow> Inr row | _ \<Rightarrow> Inl MultipleRows)"

definition select_poll_options :: "bool \<Rightarrow> store \<Rightarrow> uuid \<Rightarrow> db_error + poll_row \<times> option_row list" where
  \<comment> \<open>\<open>from('polls').select('id, question, options:options(id, text, position)')
      .eq('id', pollId).single()\<close>\<close>
  "select_poll_options fails s pollId =
     (if fails then Inl Unreachable
      else case single (filter (\<lambda>p. p_id p = pollId) (polls s)) of
             Inl e \<Rightarrow> Inl e
           | Inr poll \<Rightarrow> Inr (poll, filter (\<lambda>option. o_poll_id option = p_id poll) (options s)))"

definition select_vote :: "bool \<Rightarrow> store \<Rightarrow> uuid \<Rightarrow> string \<Rightarrow> db_error + vote_row" where
  \<comment> \<open>\<open>from('votes').select('id').eq('poll_id', pollId).eq('visitor_id', visitorId).single()\<close>\<close>
  "select_vote fails s pollId visitorId =
     (if fails then Inl Unreachable
      else single (filter (\<lambda>v. v_poll_id v = pollId \<and> v_visitor_id v = visitorId) (votes s)))"

record vote_data =
  vd_poll_id :: uuid
  vd_option_id :: uuid
  vd_visitor_id :: string

definition insert_vote :: "bool \<Rightarrow> uuid \<Rightarrow> nat \<Rightarrow> vote_data \<Rightarrow> store \<Rightarrow> db_error + store" where
  \<comment> \<open>\<open>from('votes').insert({poll_id, option_id, visitor_id})\<close>; the store draws the
      identifier and the timestamp of the row, and checks the key, the uniqueness
      constraint and the foreign keys\<close>
  "insert_vote fails new_id now d s =
     (if fails then Inl Unreachable
      else if new_id \<in> set (map v_id (votes s)) then Inl PrimaryKeyViolation
      else if \<exists>v\<in>set (votes s). v_poll_id v = vd_poll_id d \<and> v_visitor_id v = vd_visitor_id d
        then Inl UniqueViolation
      else if vd_poll_id d \<notin> set (map p_id (polls s)) \<or> vd_option_id d \<notin> set (map o_id (options s))
        then Inl ForeignKeyViolation
      else Inr (s\<lparr>votes := votes s @
              [\<lparr>v_id = new_id, v_poll_id = vd_poll_id d, v_option_id = vd_option_id d,
                v_visitor_id = vd_visitor_id d, v_created_at = now\<rparr>]\<rparr>))"

datatype count_row = Count nat

definition select_options_vote_count :: "bool \<Rightarrow> store \<Rightarrow> uuid \<Rightarrow> db_error + (option_row \<times> count_row list) list" where
  \<comment> \<open>\<open>from('options').select('id, text, position, votes:votes(count)')
      .eq('poll_id', pollId).order('position')\<close>: the embedded aggregate comes back as a
      list of one row holding the count\<close>
  "select_options_vote_count fails s pollId =
     (if fails then Inl Unreachable
      else Inr (map (\<lambda>option. (option, [Count (length (filter (\<lambda>v. v_option_id v = o_id option) (votes s)))]))
                 (sort_key o_position (filter (\<lambda>option. o_poll_id option = pollId) (options s)))))"

definition select_poll_options_votes :: "bool \<Rightarrow> store \<Rightarrow> uuid \<Rightarrow> db_error + poll_row \<times> option_row list \<times> vote_row list" where
  \<comment> \<open>\<open>from('polls').select('id, question, created_at, user_id,
      options:options(id, text, position), votes:votes(id, option_id)').eq('id', id).single()\<close>\<close>
  "select_poll_options_votes fails s pollId =
     (if fails then Inl Unreachable
      else case single (filter (\<lambda>p. p_id p = pollId) (polls s)) of
             Inl e \<Rightarrow> Inl e
           | Inr poll \<Rightarrow> Inr (poll, filter (\<lambda>option. o_poll_id option = p_id poll) (options s),
                               filter (\<lambda>v. v_poll_id v = p_id poll) (votes s)))"

definition select_poll_owner :: "bool \<Rightarrow> store \<Rightarrow> uuid \<Rightarrow> db_error + poll_row" where
  \<comment> \<open>\<open>from('polls').select('id, user_id').eq('id', id).single()\<close>\<close>
  "select_poll_owner fails s pollId =
     (if fails then Inl Unreachable else single (filter (\<lambda>p. p_id p = pollId) (polls s)))"

definition update_question :: "bool \<Rightarrow> uuid \<Rightarrow> string \<Rightarrow> store \<Rightarrow> db_error + store" where
  \<comment> \<open>\<open>from('polls').update({ question }).eq('id', id)\<close>\<close>
  "update_question fails pollId question s =
     (if fails then Inl Unreachable
      else Inr (s\<lparr>polls := map (\<lambda>p. if p_id p = pollId then p\<lparr>p_question := question\<rparr> else p)
                                (polls s)\<rparr>))"

definition delete_options :: "bool \<Rightarrow> uuid \<Rightarrow> store \<Rightarrow> db_error + store" where
  \<comment> \<open>\<open>from('options').delete().eq('poll_id', id)\<close>; the votes that reference a deleted
      option go with it (\<open>option_id uuid references options(id) on delete cascade\<close>)\<close>
  "delete_options fails pollId s =
     (if fails then Inl Unreachable
      else let deleted = map o_id (filter (\<lambda>option. o_poll_id option = pollId) (options s))
           in Inr (s\<lparr>options := filter (\<lambda>option. o_poll_id option \<noteq> pollId) (options s),
                     votes := filter (\<lambda>v. v_option_id v \<notin> set deleted) (votes s)\<rparr>))"

record option_data =
  od_poll_id :: uuid
  od_text :: string
  od_position :: int

definition insert_options :: "bool \<Rightarrow> (nat \<Rightarrow> uuid) \<Rightarrow> option_data list \<Rightarrow> store \<Rightarrow> db_error + store" where
  \<comment> \<open>\<open>from('options').insert(optionsData)\<close>: one statement; the store draws the identifier
      of each row (\<open>gen k\<close> for the row at index \<open>k\<close>)\<close>
  "insert_options fails gen optionsData s =
     (let rows = map (\<lambda>(k, d). \<lparr>o_id = gen k, o_poll_id = od_poll_id d, o_text = od_text d,
                                  o_position = od_position d\<rparr>) (enumerate 0 optionsData)
      in if fails then Inl Unreachable
         else if \<not> distinct (map o_id rows) \<or> (\<exists>r\<in>set rows. o_id r \<in> set (map o_id (options s)))
           then Inl PrimaryKeyViolation
         else if \<exists>r\<in>set rows. o_poll_id r \<notin> set (map p_id (polls s)) then Inl ForeignKeyViolation
         else Inr (s\<lparr>options := options s @ rows\<rparr>))"

section \<open>Requests and responses\<close>

datatype json_body =
  NotJson \<comment> \<open>\<open>request.json()\<close> throws\<close>
  | VoteJson uuid \<comment> \<open>an object whose \<open>optionId\<close> is a string in UUID format\<close>
  | PollJson string "string list" \<comment> \<open>an object with a string \<open>question\<close> and a string array \<open>options\<close>\<close>
  | OtherJson

record request =
  session_user :: "uuid option" \<comment> \<open>the identity of the authenticated session, if any\<close>
  x_visitor_id :: "string option" \<comment> \<open>the header \<open>x-visitor-id\<close>\<close>
  visitor_id_cookie :: "string option" \<comment> \<open>the cookie \<open>visitor_id\<close>\<close>
  body :: json_body

record cookie =
  cookie_name :: string
  cookie_value :: string
  maxAge :: nat
  httpOnly :: bool
  secure :: bool
  sameSite :: string

datatype 'a response =
  Failure nat string \<comment> \<open>\<open>NextResponse.json({ error }, { status })\<close>\<close>
  | Success 'a "cookie list" \<comment> \<open>\<open>NextResponse.json(body)\<close>, status 200, with the cookies set on it\<close>

fun status :: "'a response \<Rightarrow> nat" where
  "status (Failure st message) = st"
| "status (Success b cs) = 200"


fun cookies :: "'a response \<Rightarrow> cookie list" where
  "cookies (Failure st message) = []"
| "cookies (Success b cs) = cs"

datatype zod_error = ZodError

definition voteSchema_parse :: "json_body \<Rightarrow> zod_error + uuid" where
  \<comment> \<open>\<open>z.object({ optionId: z.string().uuid() })\<close>\<close>
  "voteSchema_parse json = (case json of VoteJson optionId \<Rightarrow> Inr optionId | _ \<Rightarrow> Inl ZodError)"

definition updatePollSchema_parse :: "json_body \<Rightarrow> zod_error + string \<times> string list" where
  \<comment> \<open>\<open>question: z.string().min(5).max(200)\<close>,
      \<open>options: z.array(z.string().min(1).max(100)).min(2).max(10)\<close>; the length of a
      string is the number of its characters\<close>
  "updatePollSchema_parse json =
     (case json of
        PollJson question opts \<Rightarrow>
          if 5 \<le> length question \<and> length question \<le> 200
             \<and> 2 \<le> length opts \<and> length opts \<le> 10
             \<and> (\<forall>text\<in>set opts. 1 \<le> length text \<and> length text \<le> 100)
          then Inr (question, opts) else Inl ZodError
      | _ \<Rightarrow> Inl ZodError)"

section \<open>Identity resolver\<close>

fun decimal :: "nat \<Rightarrow> string" where
  "decimal n = (if n < 10 then [''0123456789'' ! n]
                else decimal (n div 10) @ [''0123456789'' ! (n mod 10)])"

declare decimal.simps [simp del]

record vote_env =
  date_now :: nat \<comment> \<open>\<open>Date.now()\<close>\<close>
  random_suffix :: string \<comment> \<open>\<open>Math.random().toString(36).substr(2, 9)\<close>\<close>
  production :: bool \<comment> \<open>\<open>process.env.NODE_ENV === 'production'\<close>\<close>
  poll_query_fails :: bool
  vote_query_fails :: bool
  vote_insert_fails :: bool
  results_query_fails :: bool
  new_vote_id :: uuid \<comment> \<open>the \<open>gen_random_uuid()\<close> of the inserted row\<close>
  db_now :: nat \<comment> \<open>the \<open>now()\<close> of the inserted row\<close>

definition generated_visitor_id :: "vote_env \<Rightarrow> string" where
  \<comment> \<open>\<open>`visitor_${Date.now()}_${Math.random().toString(36).substr(2, 9)}`\<close>\<close>
  "generated_visitor_id env = ''visitor_'' @ decimal (date_now env) @ ''_'' @ random_suffix env"

definition visitorId :: "request \<Rightarrow> vote_env \<Rightarrow> string" where
  \<comment> \<open>\<open>request.headers.get('x-visitor-id') || `visitor_...`\<close>: a missing header is
      \<open>null\<close>, and \<open>null\<close> and the empty string are falsy\<close>
  "visitorId req env =
     (case x_visitor_id req of
        None \<Rightarrow> generated_visitor_id env
      | Some h \<Rightarrow> if h = [] then generated_visitor_id env else h)"

section \<open>Vote service\<close>

record poll_tally =
  pt_id :: uuid
  pt_question :: string
  pt_options :: "vote_option list"
  pt_totalVotes :: nat

record checked_vote =
  cv_visitorId :: string
  cv_poll :: poll_row
  cv_optionId :: uuid

definition POST_check :: "uuid \<Rightarrow> request \<Rightarrow> vote_env \<Rightarrow> store \<Rightarrow> poll_tally response + checked_vote" where
  \<comment> \<open>\<open>vote/route.ts\<close> lines 14 to 62, the reads of the handler: either an early response,
      or what the rest of the handler goes on with\<close>
  "POST_check pollId req env s =
     (case body req of
        NotJson \<Rightarrow> Inl (Failure 500 ''Internal server error'')
      | json \<Rightarrow>
        (case voteSchema_parse json of
           Inl ZodError \<Rightarrow> Inl (Failure 400 ''Invalid request data'')
         | Inr optionId \<Rightarrow>
           (case select_poll_options (poll_query_fails env) s pollId of
              Inl pollError \<Rightarrow> Inl (Failure 404 ''Poll not found'')
            | Inr (poll, poll_options) \<Rightarrow>
              (case find (\<lambda>option. o_id option = optionId) poll_options of
                 None \<Rightarrow> Inl (Failure 400 ''Invalid option for this poll'')
               | Some validOption \<Rightarrow>
                 (case select_vote (vote_query_fails env) s pollId (visitorId req env) of
                    Inr existingVote \<Rightarrow> Inl (Failure 409 ''You have already voted on this poll'')
                  | Inl e \<Rightarrow>
                      Inr \<lparr>cv_visitorId = visitorId req env, cv_poll = poll,
                           cv_optionId = optionId\<rparr>)))))"

definition POST_cast :: "uuid \<Rightarrow> checked_vote \<Rightarrow> vote_env \<Rightarrow> store \<Rightarrow> poll_tally response \<times> store" where
  \<comment> \<open>\<open>vote/route.ts\<close> lines 64 to 129: the insert, the tally and the cookie\<close>
  "POST_cast pollId c env s =
     (case insert_vote (vote_insert_fails env) (new_vote_id env) (db_now env)
             \<lparr>vd_poll_id = pollId, vd_option_id = cv_optionId c, vd_visitor_id = cv_visitorId c\<rparr> s of
        Inl voteError \<Rightarrow> (Failure 500 ''Failed to cast vote'', s)
      | Inr s' \<Rightarrow>
        (case select_options_vote_count (results_query_fails env) s' pollId of
           Inl resultsError \<Rightarrow> (Failure 500 ''Vote cast but failed to fetch results'', s')
         | Inr results \<Rightarrow>
           (let optionsWithCounts =
                  map (\<lambda>(option, option_votes).
                         \<lparr>vo_id = o_id option, vo_text = o_text option,
                          vo_position = o_position option, vo_votes = length option_votes\<rparr>) results;
                totalVotes = foldl (\<lambda>sum option. sum + vo_votes option) 0 optionsWithCounts
            in (Success \<lparr>pt_id = p_id (cv_poll c), pt_question = p_question (cv_poll c),
                          pt_options = optionsWithCounts, pt_totalVotes = totalVotes\<rparr>
                  [\<lparr>cookie_name = ''visitor_id'', cookie_value = cv_visitorId c,
                    maxAge = 60 * 60 * 24 * 365, httpOnly = True,
                    secure = production env, sameSite = ''lax''\<rparr>],
                s'))))"

definition POST :: "uuid \<Rightarrow> request \<Rightarrow> vote_env \<Rightarrow> store \<Rightarrow> poll_tally response \<times> store" where
  \<comment> \<open>the handler of \<open>POST /api/polls/[id]/vote\<close> run on its own\<close>
  "POST pollId req env s =
     (case POST_check pollId req env s of
        Inl early \<Rightarrow> (early, s)
      | Inr c \<Rightarrow> POST_cast pollId c env s)"

section \<open>Poll read and poll edit\<close>

record option_with_votes =
  ov_id :: uuid
  ov_text :: string
  ov_position :: int
  voteCount :: nat

record poll_with_stats =
  ps_id :: uuid
  ps_question :: string
  ps_created_at :: nat
  ps_user_id :: uuid
  ps_options :: "option_with_votes list"
  ps_votes :: "(uuid \<times> uuid) list"
  totalVotes :: nat

definition GET :: "uuid \<Rightarrow> bool \<Rightarrow> store \<Rightarrow> poll_with_stats response" where
  \<comment> \<open>the handler of \<open>GET /api/polls/[id]\<close>\<close>
  "GET pollId query_fails s =
     (case select_poll_options_votes query_fails s pollId of
        Inl e \<Rightarrow> Failure 404 ''Poll not found''
      | Inr (poll, poll_options, poll_votes) \<Rightarrow>
        (let optionsWithVotes =
               map (\<lambda>option.
                      \<lparr>ov_id = o_id option, ov_text = o_text option,
                       ov_position = o_position option,
                       voteCount = length (filter (\<lambda>vote. v_option_id vote = o_id option) poll_votes)\<rparr>)
                 (sort_key o_position poll_options)
         in Success \<lparr>ps_id = p_id poll, ps_question = p_question poll,
                      ps_created_at = p_created_at poll, ps_user_id = p_user_id poll,
                      ps_options = optionsWithVotes,
                      ps_votes = map (\<lambda>vote. (v_id vote, v_option_id vote)) poll_votes,
                      totalVotes = length poll_votes\<rparr> []))"

record update_env =
  auth_fails :: bool
  owner_query_fails :: bool
  question_update_fails :: bool
  options_delete_fails :: bool
  options_insert_fails :: bool
  gen_random_uuid :: "nat \<Rightarrow> uuid" \<comment> \<open>the identifier drawn for the inserted row at each index\<close>

definition getUser :: "bool \<Rightarrow> request \<Rightarrow> uuid option" where
  \<comment> \<open>\<open>supabase.auth.getUser()\<close>: the user of the session, \<open>None\<close> on an error or with
      no session\<close>
  "getUser fails req = (if fails then None else session_user req)"

definition PUT :: "uuid \<Rightarrow> request \<Rightarrow> update_env \<Rightarrow> store \<Rightarrow> string response \<times> store" where
  \<comment> \<open>the handler of \<open>PUT /api/polls/[id]\<close>\<close>
  "PUT pollId req env s =
     (case getUser (auth_fails env) req of
        None \<Rightarrow> (Failure 401 ''Unauthorized'', s)
      | Some user \<Rightarrow>
        (case select_poll_owner (owner_query_fails env) s pollId of
           Inl pollError \<Rightarrow> (Failure 404 ''Poll not found'', s)
         | Inr existingPoll \<Rightarrow>
           if p_user_id existingPoll \<noteq> user then (Failure 403 ''Forbidden'', s)
           else
             (case body req of
                NotJson \<Rightarrow> (Failure 500 ''Internal server error'', s)
              | json \<Rightarrow>
                (case updatePollSchema_parse json of
                   Inl ZodError \<Rightarrow> (Failure 400 ''Validation failed'', s)
                 | Inr (question, opts) \<Rightarrow>
                   (case update_question (question_update_fails env) pollId question s of
                      Inl updateError \<Rightarrow> (Failure 500 ''Failed to update poll'', s)
                    | Inr s1 \<Rightarrow>
                      (case delete_options (options_delete_fails env) pollId s1 of
                         Inl deleteOptionsError \<Rightarrow> (Failure 500 ''Failed to update poll options'', s1)
                       | Inr s2 \<Rightarrow>
                         (let optionsData =
                                map (\<lambda>(index, text). \<lparr>od_poll_id = pollId, od_text = text,
                                                        od_position = int index\<rparr>)
                                  (enumerate 0 opts)
                          in case insert_options (options_insert_fails env) (gen_random_uuid env)
                                    optionsData s2 of
                               Inl optionsError \<Rightarrow> (Failure 500 ''Failed to create poll options'', s2)
                             | Inr s3 \<Rightarrow> (Success ''Poll updated successfully'' [], s3))))))))"

section \<open>Store invariants\<close>

definition options_key :: "store \<Rightarrow> bool" where
  \<comment> \<open>the primary key of \<open>options\<close>\<close>
  "options_key s \<longleftrightarrow> distinct (map o_id (options s))"

definition votes_unique :: "store \<Rightarrow> bool" where
  \<comment> \<open>\<open>unique(poll_id, visitor_id)\<close>\<close>
  "votes_unique s \<longleftrightarrow> distinct (map (\<lambda>v. (v_poll_id v, v_visitor_id v)) (votes s))"

definition votes_attributed :: "store \<Rightarrow> bool" where
  \<comment> \<open>every vote names an option of its own poll\<close>
  "votes_attributed s \<longleftrightarrow>
     (\<forall>v\<in>set (votes s). \<exists>option\<in>set (options s).
        o_id option = v_option_id v \<and> o_poll_id option = v_poll_id v)"

definition store_invariant :: "store \<Rightarrow> bool" where
  "store_invariant s \<longleftrightarrow> options_key s \<and> votes_unique s \<and> votes_attributed s"

section \<open>Example data\<close>



definition tie_example :: "vote_option list" where
  "tie_example =
     [\<lparr>vo_id = ''opt-1'', vo_text = ''React'', vo_position = 0, vo_votes = 5\<rparr>,
      \<lparr>vo_id = ''opt-2'', vo_text = ''Vue'', vo_position = 1, vo_votes = 5\<rparr>,
      \<lparr>vo_id = ''opt-3'', vo_text = ''Angular'', vo_position = 2, vo_votes = 3\<rparr>]"

definition example_store :: store where
  "example_store =
     \<lparr>polls =
        [\<lparr>p_id = ''poll-1'', p_user_id = ''user-1'', p_question = ''Best framework?'',
          p_created_at = 1704067200\<rparr>,
         \<lparr>p_id = ''poll-2'', p_user_id = ''user-2'', p_question = ''Tabs or spaces?'',
          p_created_at = 1704067300\<rparr>],
      options =
        [\<lparr>o_id = ''opt-1'', o_poll_id = ''poll-1'', o_text = ''React'', o_position = 0\<rparr>,
         \<lparr>o_id = ''opt-2'', o_poll_id = ''poll-1'', o_text = ''Vue'', o_position = 1\<rparr>,
         \<lparr>o_id = ''opt-3'', o_poll_id = ''poll-1'', o_text = ''Angular'', o_position = 2\<rparr>,
         \<lparr>o_id = ''opt-8'', o_poll_id = ''poll-2'', o_text = ''Tabs'', o_position = 0\<rparr>,
         \<lparr>o_id = ''opt-9'', o_poll_id = ''poll-2'', o_text = ''Spaces'', o_position = 1\<rparr>],
      votes =
        [\<lparr>v_id = ''vote-1'', v_poll_id = ''poll-1'', v_option_id = ''opt-1'',
          v_visitor_id = ''visitor-789'', v_created_at = 1704067400\<rparr>,
         \<lparr>v_id = ''vote-2'', v_poll_id = ''poll-1'', v_option_id = ''opt-2'',
          v_visitor_id = ''visitor-456'', v_created_at = 1704067500\<rparr>,
         \<lparr>v_id = ''vote-3'', v_poll_id = ''poll-2'', v_option_id = ''opt-9'',
          v_visitor_id = ''visitor-789'', v_created_at = 1704067600\<rparr>]\<rparr>"

definition example_env :: vote_env where
  "example_env =
     \<lparr>date_now = 1704070000000, random_suffix = ''k3j9x2m1q'', production = True,
      poll_query_fails = False, vote_query_fails = False, vote_insert_fails = False,
      results_query_fails = False, new_vote_id = ''vote-4'', db_now = 1704070000\<rparr>"

definition vote_request :: "uuid option \<Rightarrow> string option \<Rightarrow> uuid \<Rightarrow> request" where
  "vote_request session header optionId =
     \<lparr>session_user = session, x_visitor_id = header, visitor_id_cookie = None,
      body = VoteJson optionId\<rparr>"

definition example_update_env :: update_env where
  "example_update_env =
     \<lparr>auth_fails = False, owner_query_fails = False, question_update_fails = False,
      options_delete_fails = False, options_insert_fails = False,
      gen_random_uuid = (\<lambda>k. ''new-'' @ decimal k)\<rparr>"

definition update_request :: request where
  "update_request =
     \<lparr>session_user = Some ''user-1'', x_visitor_id = None, visitor_id_cookie = None,
      body = PollJson ''Best library?'' [''Svelte'', ''Solid'']\<rparr>"

definition race_request :: request where
  \<comment> \<open>the request two clients send at the same time\<close>
  "race_request = vote_request None (Some ''visitor-race'') ''opt-1''"

definition race_checked :: checked_vote where
  "race_checked =
     \<lparr>cv_visitorId = ''visitor-race'',
      cv_poll = \<lparr>p_id = ''poll-1'', p_user_id = ''user-1'', p_question = ''Best framework?'',
                 p_created_at = 1704067200\<rparr>,
      cv_optionId = ''opt-1''\<rparr>"

definition race_store :: store where
  \<comment> \<open>the store once the other of the two requests has been served\<close>
  "race_store = snd (POST ''poll-1'' race_request (example_env\<lparr>new_vote_id := ''vote-5''\<rparr>) example_store)"

definition updated_store :: store where
  \<comment> \<open>\<open>example_store\<close> after the edit \<open>update_request\<close> of the first poll\<close>
  "updated_store =
     \<lparr>polls =
        [\<lparr>p_id = ''poll-1'', p_user_id = ''user-1'', p_question = ''Best library?'',
          p_created_at = 1704067200\<rparr>,
         \<lparr>p_id = ''poll-2'', p_user_id = ''user-2'', p_question = ''Tabs or spaces?'',
          p_created_at = 1704067300\<rparr>],
      options =
        [\<lparr>o_id = ''opt-8'', o_poll_id = ''poll-2'', o_text = ''Tabs'', o_position = 0\<rparr>,
         \<lparr>o_id = ''opt-9'', o_poll_id = ''poll-2'', o_text = ''Spaces'', o_position = 1\<rparr>,
         \<lparr>o_id = ''new-0'', o_poll_id = ''poll-1'', o_text = ''Svelte'', o_position = 0\<rparr>,
         \<lparr>o_id = ''new-1'', o_poll_id = ''poll-1'', o_text = ''Solid'', o_position = 1\<rparr>],
      votes =
        [\<lparr>v_id = ''vote-3'', v_poll_id = ''poll-2'', v_option_id = ''opt-9'',
          v_visitor_id = ''visitor-789'', v_created_at = 1704067600\<rparr>]\<rparr>"

definition question_updated_store :: store where
  \<comment> \<open>\<open>example_store\<close> with the question of the first poll replaced, and nothing else\<close>
  "question_updated_store =
     example_store\<lparr>polls :=
        [\<lparr>p_id = ''poll-1'', p_user_id = ''user-1'', p_question = ''Best library?'',
          p_created_at = 1704067200\<rparr>,
         \<lparr>p_id = ''poll-2'', p_user_id = ''user-2'', p_question = ''Tabs or spaces?'',
          p_created_at = 1704067300\<rparr>]\<rparr>"

definition options_deleted_store :: store where
  \<comment> \<open>\<open>updated_store\<close> without the new options\<close>
  "options_deleted_store =
     updated_store\<lparr>options :=
        [\<lparr>o_id = ''opt-8'', o_poll_id = ''poll-2'', o_text = ''Tabs'', o_position = 0\<rparr>,
         \<lparr>o_id = ''opt-9'', o_poll_id = ''poll-2'', o_text = ''Spaces'', o_position = 1\<rparr>]\<rparr>"

definition first_vote_store :: store where
  \<comment> \<open>the store after a client with no header and no cookie has voted\<close>
  "first_vote_store =
     snd (POST ''poll-1'' (vote_request None None ''opt-3'') example_env example_store)"

definition returning_request :: request where
  \<comment> \<open>the next request of that client: it carries the cookie the first response has set\<close>
  "returning_request =
     \<lparr>session_user = None, x_visitor_id = None,
      visitor_id_cookie = Some ''visitor_1704070000000_k3j9x2m1q'', body = VoteJson ''opt-2''\<rparr>"

definition later_env :: vote_env where
  "later_env =
     \<lparr>date_now = 1704070005000, random_suffix = ''z8y7x6w5v'', production = True,
      poll_query_fails = False, vote_query_fails = False, vote_insert_fails = False,
      results_query_fails = False, new_vote_id = ''vote-5'', db_now = 1704070005\<rparr>"



definition collision_store :: store where
  \<comment> \<open>the store after a client has voted under a header of the shape of a generated token,
      as the poll page draws it under its own clock\<close>
  "collision_store =
     snd (POST ''poll-1'' (vote_request None (Some ''visitor_1704070005000_z8y7x6w5v'') ''opt-1'')
            example_env example_store)"

section \<open>Rounding error of the percentage\<close>







section \<open>Tally presenter: percentages and winner\<close>

lemma totalVotes_of_sum: "totalVotes_of os = sum_list (map vo_votes os)"
proof -
  have "foldl (\<lambda>sum option. sum + vo_votes option) a os = a + sum_list (map vo_votes os)" for a
    by (induction os arbitrary: a) simp_all
  then show ?thesis by (simp add: totalVotes_of_def)
qed






text \<open>
  At a tie the direction of the rounding is that of the binary64 value, not of the exact
  quotient: 29 votes of 200 are exactly 14.5 percent, the computed product lies just
  below 14.5, and the percentage is 14.
\<close>

lemma getOptionPercentage_tie: "getOptionPercentage 29 200 = 14"
  by code_simp




lemma foldl_winner:
  fixes x :: vote_option
  shows "\<exists>pre post. x # xs = pre @ foldl (\<lambda>prev current. if vo_votes prev > vo_votes current then prev else current) x xs # post
      \<and> (\<forall>option\<in>set pre. vo_votes option \<le> vo_votes (foldl (\<lambda>prev current. if vo_votes prev > vo_votes current then prev else current) x xs))
      \<and> (\<forall>option\<in>set post. vo_votes option < vo_votes (foldl (\<lambda>prev current. if vo_votes prev > vo_votes current then prev else current) x xs))"
  (is "\<exists>pre post. ?P xs pre post")
proof (induction xs rule: rev_induct)
  case Nil
  have "?P [] [] []" by simp
  then show ?case by blast
next
  case (snoc y xs)
  define f where "f = (\<lambda>prev current :: vote_option. if vo_votes prev > vo_votes current then prev else current)"
  define w where "w = foldl f x xs"
  from snoc obtain pre post where d: "x # xs = pre @ w # post"
    "\<forall>option\<in>set pre. vo_votes option \<le> vo_votes w"
    "\<forall>option\<in>set post. vo_votes option < vo_votes w"
    unfolding w_def f_def by blast
  show ?case
  proof (cases "vo_votes w > vo_votes y")
    case True
    then have "foldl f x (xs @ [y]) = w" by (simp add: w_def f_def)
    moreover have "x # xs @ [y] = pre @ w # (post @ [y])" using d(1) by simp
    ultimately have "?P (xs @ [y]) pre (post @ [y])" using d True unfolding f_def by auto
    then show ?thesis by blast
  next
    case False
    then have "foldl f x (xs @ [y]) = y" by (simp add: w_def f_def)
    moreover have "\<forall>option\<in>set (x # xs). vo_votes option \<le> vo_votes y"
      using d False by (subst d(1)) fastforce
    ultimately have "?P (xs @ [y]) (x # xs) []" unfolding f_def by auto
    then show ?thesis by blast
  qed
qed

text \<open>
  C5, as the code has it: on a non-empty list the winner is an option with the greatest
  vote count, and among the options that tie for it the one encountered last: every
  option before it has at most its count, every option after it has less.
\<close>

theorem winner_last_maximum:
  "os \<noteq> [] \<longrightarrow>
     (\<exists>w pre post. winner os = Inr w \<and> os = pre @ w # post
        \<and> (\<forall>option\<in>set pre. vo_votes option \<le> vo_votes w)
        \<and> (\<forall>option\<in>set post. vo_votes option < vo_votes w))"
proof
  assume "os \<noteq> []"
  then obtain x xs where os: "os = x # xs" by (cases os) auto
  from foldl_winner[of x xs] show "\<exists>w pre post. winner os = Inr w \<and> os = pre @ w # post
        \<and> (\<forall>option\<in>set pre. vo_votes option \<le> vo_votes w)
        \<and> (\<forall>option\<in>set post. vo_votes option < vo_votes w)"
    unfolding os winner_def reduce_def by auto
qed

theorem winner_last_maximum_witness:
  "tie_example \<noteq> [] \<and> winner tie_example = Inr (tie_example ! 1)
   \<and> tie_example = [tie_example ! 0] @ (tie_example ! 1) # [tie_example ! 2]
   \<and> vo_votes (tie_example ! 0) \<le> vo_votes (tie_example ! 1)
   \<and> vo_votes (tie_example ! 2) < vo_votes (tie_example ! 1)"
  using winner_last_maximum[of tie_example]
  by (simp add: winner_def reduce_def tie_example_def)

text \<open>
  Against C5 as the specification words it: two options tie for the greatest count, and
  the winner is the second of them, not the first.
\<close>

theorem winner_first_tie_counterexample:
  "vo_votes (tie_example ! 0) = 5 \<and> vo_votes (tie_example ! 1) = 5 \<and> vo_votes (tie_example ! 2) = 3
   \<and> winner tie_example = Inr (tie_example ! 1)
   \<and> winner tie_example \<noteq> Inr (tie_example ! 0)"
  by (simp add: winner_def reduce_def tie_example_def)

section \<open>Vote service: errors and identity\<close>

lemma single_Inr_iff: "single rows = Inr row \<longleftrightarrow> rows = [row]"
  by (auto simp add: single_def split: list.splits)

lemma filter_key_single:
  "distinct (map f xs) \<Longrightarrow> x \<in> set xs \<Longrightarrow> filter (\<lambda>y. f y = f x) xs = [x]"
proof (induction xs)
  case Nil
  then show ?case by simp
next
  case (Cons a xs)
  show ?case
  proof (cases "a = x")
    case True
    with Cons.prems have "\<forall>y\<in>set xs. f y \<noteq> f x" by (metis distinct.simps(2) image_eqI list.simps(9) set_map)
    then have "filter (\<lambda>y. f y = f x) xs = []" by (simp add: filter_empty_conv)
    with True show ?thesis by simp
  next
    case False
    with Cons.prems have "x \<in> set xs" "f a \<noteq> f x" by auto
    with Cons show ?thesis by simp
  qed
qed

lemma existing_vote_single:
  assumes "votes_unique s" "v \<in> set (votes s)" "v_poll_id v = pollId" "v_visitor_id v = vid"
  shows "filter (\<lambda>w. v_poll_id w = pollId \<and> v_visitor_id w = vid) (votes s) = [v]"
proof -
  have "filter (\<lambda>w. (v_poll_id w, v_visitor_id w) = (v_poll_id v, v_visitor_id v)) (votes s) = [v]"
    using assms(1,2) unfolding votes_unique_def by (rule filter_key_single)
  then show ?thesis using assms(3,4) by simp
qed

lemma insert_vote_existing:
  assumes "v \<in> set (votes s)" "v_poll_id v = vd_poll_id d" "v_visitor_id v = vd_visitor_id d"
  shows "\<exists>e. insert_vote fails new_id now d s = Inl e"
  using assms by (auto simp add: insert_vote_def)

lemma POST_cast_insert_error:
  "insert_vote (vote_insert_fails env) (new_vote_id env) (db_now env)
       \<lparr>vd_poll_id = pollId, vd_option_id = cv_optionId c, vd_visitor_id = cv_visitorId c\<rparr> s = Inl e
   \<Longrightarrow> POST_cast pollId c env s = (Failure 500 ''Failed to cast vote'', s)"
  by (simp add: POST_cast_def)

lemma POST_cast_existing:
  assumes "v \<in> set (votes s)" "v_poll_id v = pollId" "v_visitor_id v = cv_visitorId c"
  shows "POST_cast pollId c env s = (Failure 500 ''Failed to cast vote'', s)"
proof -
  from insert_vote_existing[of v s "\<lparr>vd_poll_id = pollId, vd_option_id = cv_optionId c, vd_visitor_id = cv_visitorId c\<rparr>"]
    assms
  obtain e where "insert_vote (vote_insert_fails env) (new_vote_id env) (db_now env)
       \<lparr>vd_poll_id = pollId, vd_option_id = cv_optionId c, vd_visitor_id = cv_visitorId c\<rparr> s = Inl e"
    by fastforce
  then show ?thesis by (rule POST_cast_insert_error)
qed

lemma POST_check_visitor:
  "POST_check pollId req env s = Inr c \<Longrightarrow> cv_visitorId c = visitorId req env"
  by (auto simp add: POST_check_def split: json_body.splits sum.splits zod_error.splits prod.splits option.splits)

lemma POST_existing_unchanged:
  assumes "v \<in> set (votes s)" "v_poll_id v = pollId" "v_visitor_id v = visitorId req env"
  shows "snd (POST pollId req env s) = s"
proof (cases "POST_check pollId req env s")
  case (Inl early)
  then show ?thesis by (simp add: POST_def)
next
  case (Inr c)
  with assms POST_check_visitor[OF Inr] POST_cast_existing[of v s pollId c env]
  show ?thesis by (simp add: POST_def)
qed


lemma POST_insert_existing:
  assumes "POST_check pollId req env s = Inr c" "v \<in> set (votes s)" "v_poll_id v = pollId"
    "v_visitor_id v = visitorId req env"
  shows "POST pollId req env s = (Failure 500 ''Failed to cast vote'', s)"
  using assms POST_check_visitor[OF assms(1)] POST_cast_existing[of v s pollId c env]
  by (simp add: POST_def)

lemma POST_cast_not_conflict: "status (fst (POST_cast pollId c env s)) \<noteq> 409"
  by (simp add: POST_cast_def Let_def split: sum.splits)

lemmas vote_defs = POST_def POST_check_def POST_cast_def voteSchema_parse_def select_poll_options_def
  select_vote_def insert_vote_def select_options_vote_count_def single_def visitorId_def
  generated_visitor_id_def

lemmas example_defs = example_store_def example_env_def vote_request_def

lemmas race_defs = race_request_def race_checked_def race_store_def

text \<open>
  C1, as the code has it: whenever the insert of the vote fails at the store, and so
  whenever it meets a row already present for the same poll and visitor (the uniqueness
  violation), the handler answers with the storage error 500 \<open>Failed to cast vote\<close>
  and leaves the store as it was. This holds for the second half of the handler run
  on a store that has changed since the first half read it, and for the handler run on
  its own when the check for an existing vote has let the request through. The second
  half of the handler never answers 409: the conflict comes from that check alone.
\<close>

theorem insert_failure_is_storage_error:
  "(insert_vote (vote_insert_fails env) (new_vote_id env) (db_now env)
       \<lparr>vd_poll_id = pollId, vd_option_id = cv_optionId c, vd_visitor_id = cv_visitorId c\<rparr> s = Inl e
     \<longrightarrow> POST_cast pollId c env s = (Failure 500 ''Failed to cast vote'', s))
   \<and> ((\<exists>v\<in>set (votes s). v_poll_id v = pollId \<and> v_visitor_id v = cv_visitorId c)
     \<longrightarrow> POST_cast pollId c env s = (Failure 500 ''Failed to cast vote'', s))
   \<and> (POST_check pollId req env s = Inr c
       \<and> (\<exists>v\<in>set (votes s). v_poll_id v = pollId \<and> v_visitor_id v = visitorId req env)
     \<longrightarrow> POST pollId req env s = (Failure 500 ''Failed to cast vote'', s))
   \<and> status (fst (POST_cast pollId c env s)) \<noteq> 409"
  using POST_cast_insert_error POST_cast_existing POST_insert_existing POST_cast_not_conflict
  by blast

theorem insert_failure_is_storage_error_witness:
  "insert_vote (vote_insert_fails example_env) (new_vote_id example_env) (db_now example_env)
       \<lparr>vd_poll_id = ''poll-1'', vd_option_id = cv_optionId race_checked,
        vd_visitor_id = cv_visitorId race_checked\<rparr> race_store = Inl UniqueViolation
   \<and> POST_cast ''poll-1'' race_checked example_env race_store
       = (Failure 500 ''Failed to cast vote'', race_store)
   \<and> POST_check ''poll-1'' race_request (example_env\<lparr>vote_query_fails := True\<rparr>) race_store
       = Inr race_checked
   \<and> votes race_store ! 3 \<in> set (votes race_store)
   \<and> v_poll_id (votes race_store ! 3) = ''poll-1''
   \<and> v_visitor_id (votes race_store ! 3)
       = visitorId race_request (example_env\<lparr>vote_query_fails := True\<rparr>)
   \<and> POST ''poll-1'' race_request (example_env\<lparr>vote_query_fails := True\<rparr>) race_store
       = (Failure 500 ''Failed to cast vote'', race_store)"
proof -
  have i: "insert_vote (vote_insert_fails example_env) (new_vote_id example_env) (db_now example_env)
       \<lparr>vd_poll_id = ''poll-1'', vd_option_id = cv_optionId race_checked,
        vd_visitor_id = cv_visitorId race_checked\<rparr> race_store = Inl UniqueViolation"
    by (simp add: vote_defs example_defs race_defs)
  have c: "POST_check ''poll-1'' race_request (example_env\<lparr>vote_query_fails := True\<rparr>) race_store
       = Inr race_checked"
    by (simp add: vote_defs example_defs race_defs)
  have v: "votes race_store ! 3 \<in> set (votes race_store)
   \<and> v_poll_id (votes race_store ! 3) = ''poll-1''
   \<and> v_visitor_id (votes race_store ! 3)
       = visitorId race_request (example_env\<lparr>vote_query_fails := True\<rparr>)"
    by (simp add: vote_defs example_defs race_defs)
  from insert_failure_is_storage_error[of example_env "''poll-1''" race_checked race_store
      UniqueViolation race_request] i
  have r1: "POST_cast ''poll-1'' race_checked example_env race_store
       = (Failure 500 ''Failed to cast vote'', race_store)" by blast
  from insert_failure_is_storage_error[of "example_env\<lparr>vote_query_fails := True\<rparr>" "''poll-1''"
      race_checked race_store UniqueViolation race_request] c v
  have r2: "POST ''poll-1'' race_request (example_env\<lparr>vote_query_fails := True\<rparr>) race_store
       = (Failure 500 ''Failed to cast vote'', race_store)" by blast
  from i c v r1 r2 show ?thesis by blast
qed

text \<open>
  Against C1 as the specification words it: two requests with the same visitor and poll
  both pass the check for an existing vote; one is served; the insert of the other
  violates the uniqueness constraint and is answered with 500, where the check for an
  existing vote, run on the same store, answers 409. The same 500 is the answer of the
  handler run on its own when the query of that check fails (the handler reads its data
  and drops its error) and the insert meets the existing row.
\<close>

theorem race_loser_counterexample:
  "POST_check ''poll-1'' race_request example_env example_store = Inr race_checked
   \<and> status (fst (POST ''poll-1'' race_request (example_env\<lparr>new_vote_id := ''vote-5''\<rparr>) example_store)) = 200
   \<and> race_store = snd (POST ''poll-1'' race_request (example_env\<lparr>new_vote_id := ''vote-5''\<rparr>) example_store)
   \<and> insert_vote False ''vote-4'' 1704070000
       \<lparr>vd_poll_id = ''poll-1'', vd_option_id = ''opt-1'', vd_visitor_id = ''visitor-race''\<rparr>
       race_store = Inl UniqueViolation
   \<and> fst (POST_cast ''poll-1'' race_checked example_env race_store) = Failure 500 ''Failed to cast vote''
   \<and> fst (POST ''poll-1'' race_request example_env race_store)
       = Failure 409 ''You have already voted on this poll''
   \<and> fst (POST_cast ''poll-1'' race_checked example_env race_store)
       \<noteq> fst (POST ''poll-1'' race_request example_env race_store)
   \<and> fst (POST ''poll-1'' race_request (example_env\<lparr>vote_query_fails := True\<rparr>) race_store)
       = Failure 500 ''Failed to cast vote''"
  by (simp add: vote_defs example_defs race_defs)

lemma select_poll_options_found:
  assumes "\<not> fails" "filter (\<lambda>p. p_id p = pollId) (polls s) = [poll]"
  shows "select_poll_options fails s pollId
           = Inr (poll, filter (\<lambda>option. o_poll_id option = pollId) (options s))"
proof -
  have "poll \<in> set (filter (\<lambda>p. p_id p = pollId) (polls s))" using assms(2) by simp
  then have "p_id poll = pollId" by simp
  with assms show ?thesis by (simp add: select_poll_options_def single_def)
qed

lemma find_option_None:
  "optionId \<notin> set (map o_id os) \<Longrightarrow> find (\<lambda>option. o_id option = optionId) os = None"
  by (auto simp add: find_None_iff)

lemma find_option_Some:
  "optionId \<in> set (map o_id os) \<Longrightarrow> \<exists>validOption. find (\<lambda>option. o_id option = optionId) os = Some validOption"
  by (cases "find (\<lambda>option. o_id option = optionId) os") (auto simp add: find_None_iff)

text \<open>
  C3: when the poll is found and the submitted \<open>optionId\<close> is not the identifier of one
  of its options, the handler answers 400 \<open>Invalid option for this poll\<close> and the store
  is unchanged, whatever other poll the option may belong to.
\<close>

theorem option_of_other_poll_rejected:
  "body req = VoteJson optionId \<and> \<not> poll_query_fails env
   \<and> filter (\<lambda>p. p_id p = pollId) (polls s) = [poll]
   \<and> optionId \<notin> set (map o_id (filter (\<lambda>option. o_poll_id option = pollId) (options s)))
   \<longrightarrow> POST pollId req env s = (Failure 400 ''Invalid option for this poll'', s)"
proof (intro impI, elim conjE)
  assume b: "body req = VoteJson optionId" and f: "\<not> poll_query_fails env"
    and p: "filter (\<lambda>p. p_id p = pollId) (polls s) = [poll]"
    and n: "optionId \<notin> set (map o_id (filter (\<lambda>option. o_poll_id option = pollId) (options s)))"
  show "POST pollId req env s = (Failure 400 ''Invalid option for this poll'', s)"
    by (simp add: POST_def POST_check_def b voteSchema_parse_def
        select_poll_options_found[OF f p] find_option_None[OF n])
qed

theorem option_of_other_poll_rejected_witness:
  "body (vote_request None (Some ''visitor-123'') ''opt-8'') = VoteJson ''opt-8''
   \<and> \<not> poll_query_fails example_env
   \<and> filter (\<lambda>p. p_id p = ''poll-1'') (polls example_store) = [polls example_store ! 0]
   \<and> ''opt-8'' \<notin> set (map o_id (filter (\<lambda>option. o_poll_id option = ''poll-1'') (options example_store)))
   \<and> ''opt-8'' \<in> set (map o_id (filter (\<lambda>option. o_poll_id option = ''poll-2'') (options example_store)))
   \<and> POST ''poll-1'' (vote_request None (Some ''visitor-123'') ''opt-8'') example_env example_store
       = (Failure 400 ''Invalid option for this poll'', example_store)"
  using option_of_other_poll_rejected[of "vote_request None (Some ''visitor-123'') ''opt-8''" "''opt-8''"
      example_env "''poll-1''" example_store "polls example_store ! 0"]
  by (simp add: example_defs)

text \<open>
  C2, as the code has it: when a vote row exists for the poll and the visitor, the store is
  unchanged by the request; and the answer is the conflict 409 when the request has passed
  the checks that come first (the body parses, the poll is found, the option is one of the
  poll's) and the query for the existing vote succeeds; a request that fails one of the
  checks that come first gets the error of that check.
\<close>

theorem existing_vote_conflict:
  "(\<exists>v\<in>set (votes s). v_poll_id v = pollId \<and> v_visitor_id v = visitorId req env) \<longrightarrow>
     snd (POST pollId req env s) = s
     \<and> (votes_unique s \<and> \<not> vote_query_fails env \<and> body req = VoteJson optionId
          \<and> \<not> poll_query_fails env \<and> filter (\<lambda>p. p_id p = pollId) (polls s) = [poll]
          \<and> optionId \<in> set (map o_id (filter (\<lambda>option. o_poll_id option = pollId) (options s)))
        \<longrightarrow> fst (POST pollId req env s) = Failure 409 ''You have already voted on this poll'')
     \<and> (body req = NotJson
        \<longrightarrow> fst (POST pollId req env s) = Failure 500 ''Internal server error'')
     \<and> (body req \<noteq> NotJson \<and> voteSchema_parse (body req) = Inl ZodError
        \<longrightarrow> fst (POST pollId req env s) = Failure 400 ''Invalid request data'')
     \<and> (body req = VoteJson optionId
          \<and> select_poll_options (poll_query_fails env) s pollId = Inl e
        \<longrightarrow> fst (POST pollId req env s) = Failure 404 ''Poll not found'')
     \<and> (body req = VoteJson optionId \<and> \<not> poll_query_fails env
          \<and> filter (\<lambda>p. p_id p = pollId) (polls s) = [poll]
          \<and> optionId \<notin> set (map o_id (filter (\<lambda>option. o_poll_id option = pollId) (options s)))
        \<longrightarrow> fst (POST pollId req env s) = Failure 400 ''Invalid option for this poll'')"
proof (intro impI conjI)
  assume "\<exists>v\<in>set (votes s). v_poll_id v = pollId \<and> v_visitor_id v = visitorId req env"
  then obtain v where v: "v \<in> set (votes s)" "v_poll_id v = pollId"
    "v_visitor_id v = visitorId req env" by blast
  from v show "snd (POST pollId req env s) = s" by (rule POST_existing_unchanged)
  assume h: "votes_unique s \<and> \<not> vote_query_fails env \<and> body req = VoteJson optionId
          \<and> \<not> poll_query_fails env \<and> filter (\<lambda>p. p_id p = pollId) (polls s) = [poll]
          \<and> optionId \<in> set (map o_id (filter (\<lambda>option. o_poll_id option = pollId) (options s)))"
  from h have b: "body req = VoteJson optionId" by blast
  from h have found: "select_poll_options (poll_query_fails env) s pollId
      = Inr (poll, filter (\<lambda>option. o_poll_id option = pollId) (options s))"
    by (simp add: select_poll_options_found)
  from h obtain validOption where valid:
    "find (\<lambda>option. o_id option = optionId) (filter (\<lambda>option. o_poll_id option = pollId) (options s))
       = Some validOption"
    using find_option_Some by blast
  from h v have existing: "select_vote (vote_query_fails env) s pollId (visitorId req env) = Inr v"
    by (simp add: select_vote_def single_Inr_iff existing_vote_single)
  show "fst (POST pollId req env s) = Failure 409 ''You have already voted on this poll''"
    by (simp add: POST_def POST_check_def voteSchema_parse_def b found valid existing)
next
  assume "body req = NotJson"
  then show "fst (POST pollId req env s) = Failure 500 ''Internal server error''"
    by (simp add: POST_def POST_check_def)
next
  assume "body req \<noteq> NotJson \<and> voteSchema_parse (body req) = Inl ZodError"
  then show "fst (POST pollId req env s) = Failure 400 ''Invalid request data''"
    by (cases "body req") (simp_all add: POST_def POST_check_def)
next
  assume "body req = VoteJson optionId
      \<and> select_poll_options (poll_query_fails env) s pollId = Inl e"
  then show "fst (POST pollId req env s) = Failure 404 ''Poll not found''"
    by (simp add: POST_def POST_check_def voteSchema_parse_def)
next
  assume "body req = VoteJson optionId \<and> \<not> poll_query_fails env
      \<and> filter (\<lambda>p. p_id p = pollId) (polls s) = [poll]
      \<and> optionId \<notin> set (map o_id (filter (\<lambda>option. o_poll_id option = pollId) (options s)))"
  then show "fst (POST pollId req env s) = Failure 400 ''Invalid option for this poll''"
    by (simp add: POST_def POST_check_def voteSchema_parse_def select_poll_options_found
        find_option_None)
qed

theorem existing_vote_conflict_witness:
  "votes example_store ! 0 \<in> set (votes example_store)
   \<and> v_poll_id (votes example_store ! 0) = ''poll-1''
   \<and> v_visitor_id (votes example_store ! 0)
       = visitorId (vote_request None (Some ''visitor-789'') ''opt-2'') example_env
   \<and> votes_unique example_store \<and> \<not> vote_query_fails example_env
   \<and> body (vote_request None (Some ''visitor-789'') ''opt-2'') = VoteJson ''opt-2''
   \<and> \<not> poll_query_fails example_env
   \<and> filter (\<lambda>p. p_id p = ''poll-1'') (polls example_store) = [polls example_store ! 0]
   \<and> ''opt-2'' \<in> set (map o_id (filter (\<lambda>option. o_poll_id option = ''poll-1'') (options example_store)))
   \<and> POST ''poll-1'' (vote_request None (Some ''visitor-789'') ''opt-2'') example_env example_store
       = (Failure 409 ''You have already voted on this poll'', example_store)"
proof -
  have pre: "votes example_store ! 0 \<in> set (votes example_store)
   \<and> v_poll_id (votes example_store ! 0) = ''poll-1''
   \<and> v_visitor_id (votes example_store ! 0)
       = visitorId (vote_request None (Some ''visitor-789'') ''opt-2'') example_env
   \<and> votes_unique example_store \<and> \<not> vote_query_fails example_env
   \<and> body (vote_request None (Some ''visitor-789'') ''opt-2'') = VoteJson ''opt-2''
   \<and> \<not> poll_query_fails example_env
   \<and> filter (\<lambda>p. p_id p = ''poll-1'') (polls example_store) = [polls example_store ! 0]
   \<and> ''opt-2'' \<in> set (map o_id (filter (\<lambda>option. o_poll_id option = ''poll-1'') (options example_store)))"
    by (simp add: example_defs votes_unique_def visitorId_def)
  with existing_vote_conflict[of example_store "''poll-1''"
      "vote_request None (Some ''visitor-789'') ''opt-2''" example_env "''opt-2''"
      "polls example_store ! 0"]
  have "snd (POST ''poll-1'' (vote_request None (Some ''visitor-789'') ''opt-2'') example_env example_store)
          = example_store
      \<and> fst (POST ''poll-1'' (vote_request None (Some ''visitor-789'') ''opt-2'') example_env example_store)
          = Failure 409 ''You have already voted on this poll''"
    by blast
  with pre show ?thesis by (simp add: prod_eq_iff)
qed

text \<open>
  Against C2 as the specification words it: a vote row exists for the poll and the
  visitor, the option submitted belongs to another poll, and the answer is the validation
  error 400, not the conflict.
\<close>

theorem existing_vote_invalid_option_counterexample:
  "votes example_store ! 0 \<in> set (votes example_store)
   \<and> v_poll_id (votes example_store ! 0) = ''poll-1''
   \<and> v_visitor_id (votes example_store ! 0)
       = visitorId (vote_request None (Some ''visitor-789'') ''opt-9'') example_env
   \<and> POST ''poll-1'' (vote_request None (Some ''visitor-789'') ''opt-9'') example_env example_store
       = (Failure 400 ''Invalid option for this poll'', example_store)
   \<and> status (fst (POST ''poll-1'' (vote_request None (Some ''visitor-789'') ''opt-9'') example_env
         example_store)) \<noteq> 409"
  by (simp add: vote_defs example_defs)

lemma POST_check_Inr:
  assumes "POST_check pollId req env s = Inr c"
  shows "body req = VoteJson (cv_optionId c) \<and> cv_visitorId c = visitorId req env
    \<and> (\<exists>poll_options. select_poll_options (poll_query_fails env) s pollId = Inr (cv_poll c, poll_options)
          \<and> cv_optionId c \<in> set (map o_id poll_options))
    \<and> (\<forall>v. select_vote (vote_query_fails env) s pollId (visitorId req env) \<noteq> Inr v)"
proof -
  from assms obtain optionId where b: "body req = VoteJson optionId"
    by (cases "body req") (auto simp add: POST_check_def voteSchema_parse_def)
  from assms b obtain poll poll_options where
    p: "select_poll_options (poll_query_fails env) s pollId = Inr (poll, poll_options)"
    by (cases "select_poll_options (poll_query_fails env) s pollId")
      (auto simp add: POST_check_def voteSchema_parse_def)
  from assms b p obtain validOption where
    f: "find (\<lambda>option. o_id option = optionId) poll_options = Some validOption"
    by (cases "find (\<lambda>option. o_id option = optionId) poll_options")
      (auto simp add: POST_check_def voteSchema_parse_def)
  from f have m: "optionId \<in> set (map o_id poll_options)"
    by (auto simp add: find_Some_iff)
  from assms b p f show ?thesis using m
    by (cases "select_vote (vote_query_fails env) s pollId (visitorId req env)")
      (auto simp add: POST_check_def voteSchema_parse_def)
qed

text \<open>
  C6 fails on the code at this input. A client with no header and no cookie votes; the
  token \<open>visitor_1704070000000_k3j9x2m1q\<close> is synthesized for it and the response sets the
  cookie \<open>visitor_id\<close> to that token, for one year. The next request of the client carries
  the cookie and no header: the handler does not use the token of the cookie, it
  synthesizes another one, and the client votes a second time on the same poll. The same
  token sent in the header \<open>x-visitor-id\<close> is answered with the conflict 409.
\<close>

theorem cookie_ignored_failing_input:
  "cookies (fst (POST ''poll-1'' (vote_request None None ''opt-3'') example_env example_store))
     = [\<lparr>cookie_name = ''visitor_id'', cookie_value = ''visitor_1704070000000_k3j9x2m1q'',
         maxAge = 31536000, httpOnly = True, secure = True, sameSite = ''lax''\<rparr>]
   \<and> first_vote_store
       = snd (POST ''poll-1'' (vote_request None None ''opt-3'') example_env example_store)
   \<and> x_visitor_id returning_request = None
   \<and> visitor_id_cookie returning_request = Some ''visitor_1704070000000_k3j9x2m1q''
   \<and> visitorId returning_request later_env = ''visitor_1704070005000_z8y7x6w5v''
   \<and> status (fst (POST ''poll-1'' returning_request later_env first_vote_store)) = 200
   \<and> map v_visitor_id (filter (\<lambda>v. v_poll_id v = ''poll-1'')
         (votes (snd (POST ''poll-1'' returning_request later_env first_vote_store))))
       = [''visitor-789'', ''visitor-456'', ''visitor_1704070000000_k3j9x2m1q'',
          ''visitor_1704070005000_z8y7x6w5v'']
   \<and> fst (POST ''poll-1'' (vote_request None (Some ''visitor_1704070000000_k3j9x2m1q'') ''opt-2'')
         later_env first_vote_store)
       = Failure 409 ''You have already voted on this poll''"
  by (simp add: vote_defs example_defs first_vote_store_def returning_request_def later_env_def
      decimal.simps)


lemma POST_conflict_iff:
  "status (fst (POST pollId req env s)) = 409 \<longleftrightarrow>
     (\<exists>optionId poll v.
          body req = VoteJson optionId
        \<and> \<not> poll_query_fails env \<and> filter (\<lambda>p. p_id p = pollId) (polls s) = [poll]
        \<and> optionId \<in> set (map o_id (filter (\<lambda>option. o_poll_id option = pollId) (options s)))
        \<and> \<not> vote_query_fails env
        \<and> filter (\<lambda>v. v_poll_id v = pollId \<and> v_visitor_id v = visitorId req env) (votes s) = [v])"
  (is "?L \<longleftrightarrow> ?R")
proof
  assume ?R
  then obtain optionId poll v where b: "body req = VoteJson optionId"
    and pf: "\<not> poll_query_fails env" and p: "filter (\<lambda>p. p_id p = pollId) (polls s) = [poll]"
    and m: "optionId \<in> set (map o_id (filter (\<lambda>option. o_poll_id option = pollId) (options s)))"
    and vf: "\<not> vote_query_fails env"
    and v: "filter (\<lambda>v. v_poll_id v = pollId \<and> v_visitor_id v = visitorId req env) (votes s) = [v]"
    by blast
  from find_option_Some[OF m] obtain validOption where
    f: "find (\<lambda>option. o_id option = optionId) (filter (\<lambda>option. o_poll_id option = pollId) (options s))
          = Some validOption" by blast
  from vf v have e: "select_vote (vote_query_fails env) s pollId (visitorId req env) = Inr v"
    by (simp add: select_vote_def single_Inr_iff)
  show ?L
    by (simp add: POST_def POST_check_def voteSchema_parse_def b
        select_poll_options_found[OF pf p] f e)
next
  assume l: ?L
  show ?R
  proof (cases "POST_check pollId req env s")
    case (Inr c)
    with l POST_cast_not_conflict[of pollId c env s] show ?thesis by (simp add: POST_def)
  next
    case (Inl early)
    with l have st: "status early = 409" by (simp add: POST_def)
    from Inl st obtain optionId where b: "body req = VoteJson optionId"
      by (cases "body req") (auto simp add: POST_check_def voteSchema_parse_def)
    from Inl st b obtain poll poll_options where
      sp: "select_poll_options (poll_query_fails env) s pollId = Inr (poll, poll_options)"
      by (cases "select_poll_options (poll_query_fails env) s pollId")
        (auto simp add: POST_check_def voteSchema_parse_def)
    then have pf: "\<not> poll_query_fails env"
      and p: "filter (\<lambda>p. p_id p = pollId) (polls s) = [poll]"
      and po: "poll_options = filter (\<lambda>option. o_poll_id option = p_id poll) (options s)"
      by (auto simp add: select_poll_options_def single_Inr_iff split: if_splits sum.splits)
    from p have "poll \<in> set (filter (\<lambda>p. p_id p = pollId) (polls s))" by simp
    then have pid: "p_id poll = pollId" by simp
    from Inl st b sp obtain validOption where
      f: "find (\<lambda>option. o_id option = optionId) poll_options = Some validOption"
      by (cases "find (\<lambda>option. o_id option = optionId) poll_options")
        (auto simp add: POST_check_def voteSchema_parse_def)
    then have m: "optionId \<in> set (map o_id poll_options)" by (auto simp add: find_Some_iff)
    from Inl b sp f obtain v where
      e: "select_vote (vote_query_fails env) s pollId (visitorId req env) = Inr v"
      by (cases "select_vote (vote_query_fails env) s pollId (visitorId req env)")
        (auto simp add: POST_check_def voteSchema_parse_def)
    then have vf: "\<not> vote_query_fails env"
      and v: "filter (\<lambda>v. v_poll_id v = pollId \<and> v_visitor_id v = visitorId req env) (votes s) = [v]"
      by (auto simp add: select_vote_def single_Inr_iff split: if_splits)
    from b pf p m vf v show ?thesis unfolding po pid by blast
  qed
qed

text \<open>
  C9, as the code has it: a request with no header \<open>x-visitor-id\<close> votes under the
  identifier generated for it from the clock and the random draw. It is answered with
  the conflict 409 exactly when it passes the checks that come first and the query for an
  existing vote returns one row of the poll under that very identifier; so it is never
  answered 409 when no vote of the poll carries the identifier.
\<close>

theorem headerless_vote_conflict_iff:
  "x_visitor_id req = None \<longrightarrow>
     visitorId req env = generated_visitor_id env
     \<and> (status (fst (POST pollId req env s)) = 409 \<longleftrightarrow>
          (\<exists>optionId poll v.
              body req = VoteJson optionId
            \<and> \<not> poll_query_fails env \<and> filter (\<lambda>p. p_id p = pollId) (polls s) = [poll]
            \<and> optionId \<in> set (map o_id (filter (\<lambda>option. o_poll_id option = pollId) (options s)))
            \<and> \<not> vote_query_fails env
            \<and> filter (\<lambda>v. v_poll_id v = pollId \<and> v_visitor_id v = generated_visitor_id env)
                  (votes s) = [v]))
     \<and> ((\<forall>v\<in>set (votes s). v_poll_id v = pollId \<longrightarrow> v_visitor_id v \<noteq> generated_visitor_id env)
          \<longrightarrow> status (fst (POST pollId req env s)) \<noteq> 409)"
proof
  assume h: "x_visitor_id req = None"
  then have vid: "visitorId req env = generated_visitor_id env" by (simp add: visitorId_def)
  note iff = POST_conflict_iff[of pollId req env s, unfolded vid]
  have "status (fst (POST pollId req env s)) \<noteq> 409"
    if fresh: "\<forall>v\<in>set (votes s). v_poll_id v = pollId \<longrightarrow> v_visitor_id v \<noteq> generated_visitor_id env"
  proof
    assume "status (fst (POST pollId req env s)) = 409"
    with iff obtain v where
      "filter (\<lambda>v. v_poll_id v = pollId \<and> v_visitor_id v = generated_visitor_id env) (votes s) = [v]"
      by blast
    then have "v \<in> set (filter (\<lambda>v. v_poll_id v = pollId \<and> v_visitor_id v = generated_visitor_id env) (votes s))"
      by simp
    with fresh show False by simp
  qed
  with vid iff show "visitorId req env = generated_visitor_id env
     \<and> (status (fst (POST pollId req env s)) = 409 \<longleftrightarrow>
          (\<exists>optionId poll v.
              body req = VoteJson optionId
            \<and> \<not> poll_query_fails env \<and> filter (\<lambda>p. p_id p = pollId) (polls s) = [poll]
            \<and> optionId \<in> set (map o_id (filter (\<lambda>option. o_poll_id option = pollId) (options s)))
            \<and> \<not> vote_query_fails env
            \<and> filter (\<lambda>v. v_poll_id v = pollId \<and> v_visitor_id v = generated_visitor_id env)
                  (votes s) = [v]))
     \<and> ((\<forall>v\<in>set (votes s). v_poll_id v = pollId \<longrightarrow> v_visitor_id v \<noteq> generated_visitor_id env)
          \<longrightarrow> status (fst (POST pollId req env s)) \<noteq> 409)"
    by blast
qed

theorem headerless_vote_conflict_iff_witness:
  "x_visitor_id (vote_request None None ''opt-3'') = None
   \<and> generated_visitor_id example_env = ''visitor_1704070000000_k3j9x2m1q''
   \<and> visitorId (vote_request None None ''opt-3'') example_env = generated_visitor_id example_env
   \<and> generated_visitor_id example_env \<notin> set (map v_visitor_id (votes example_store))
   \<and> status (fst (POST ''poll-1'' (vote_request None None ''opt-3'') example_env example_store)) = 200
   \<and> generated_visitor_id later_env = ''visitor_1704070005000_z8y7x6w5v''
   \<and> body (vote_request None None ''opt-3'') = VoteJson ''opt-3''
   \<and> \<not> poll_query_fails later_env
   \<and> filter (\<lambda>p. p_id p = ''poll-1'') (polls collision_store) = [polls collision_store ! 0]
   \<and> ''opt-3'' \<in> set (map o_id (filter (\<lambda>option. o_poll_id option = ''poll-1'') (options collision_store)))
   \<and> \<not> vote_query_fails later_env
   \<and> filter (\<lambda>v. v_poll_id v = ''poll-1'' \<and> v_visitor_id v = generated_visitor_id later_env)
        (votes collision_store) = [votes collision_store ! 3]
   \<and> status (fst (POST ''poll-1'' (vote_request None None ''opt-3'') later_env collision_store)) = 409"
proof -
  let ?req = "vote_request None None ''opt-3''"
  have g: "generated_visitor_id example_env = ''visitor_1704070000000_k3j9x2m1q''"
    by (simp add: generated_visitor_id_def example_env_def decimal.simps)
  have g': "generated_visitor_id later_env = ''visitor_1704070005000_z8y7x6w5v''"
    by (simp add: generated_visitor_id_def later_env_def decimal.simps)
  have n: "x_visitor_id ?req = None" by (simp add: vote_request_def)
  have f: "generated_visitor_id example_env \<notin> set (map v_visitor_id (votes example_store))"
    by (simp add: g example_store_def)
  then have fresh: "\<forall>v\<in>set (votes example_store). v_poll_id v = ''poll-1'' \<longrightarrow>
      v_visitor_id v \<noteq> generated_visitor_id example_env" by force
  have ok: "status (fst (POST ''poll-1'' ?req example_env example_store)) = 200"
    by (simp add: vote_defs example_defs decimal.simps)
  have pre: "body ?req = VoteJson ''opt-3'' \<and> \<not> poll_query_fails later_env
    \<and> filter (\<lambda>p. p_id p = ''poll-1'') (polls collision_store) = [polls collision_store ! 0]
    \<and> ''opt-3'' \<in> set (map o_id (filter (\<lambda>option. o_poll_id option = ''poll-1'') (options collision_store)))
    \<and> \<not> vote_query_fails later_env
    \<and> filter (\<lambda>v. v_poll_id v = ''poll-1'' \<and> v_visitor_id v = generated_visitor_id later_env)
        (votes collision_store) = [votes collision_store ! 3]"
    unfolding g' by (simp add: vote_defs example_defs collision_store_def later_env_def)
  from headerless_vote_conflict_iff[of ?req example_env "''poll-1''" example_store] n fresh
  have r1: "visitorId ?req example_env = generated_visitor_id example_env
    \<and> status (fst (POST ''poll-1'' ?req example_env example_store)) \<noteq> 409" by blast
  from headerless_vote_conflict_iff[of ?req later_env "''poll-1''" collision_store] n pre
  have r2: "status (fst (POST ''poll-1'' ?req later_env collision_store)) = 409" by blast
  from g g' n f ok pre r1 r2 show ?thesis by blast
qed

text \<open>
  Against C9 as the specification words it: a client has voted under a header that has
  the shape of a generated token, as the poll page draws it under the clock of the
  browser; a later request with no header draws that same token and is answered with the
  conflict 409.
\<close>

theorem headerless_vote_conflict_counterexample:
  "status (fst (POST ''poll-1'' (vote_request None (Some ''visitor_1704070005000_z8y7x6w5v'') ''opt-1'')
       example_env example_store)) = 200
   \<and> collision_store = snd (POST ''poll-1''
       (vote_request None (Some ''visitor_1704070005000_z8y7x6w5v'') ''opt-1'') example_env example_store)
   \<and> x_visitor_id (vote_request None None ''opt-3'') = None
   \<and> visitor_id_cookie (vote_request None None ''opt-3'') = None
   \<and> visitorId (vote_request None None ''opt-3'') later_env = ''visitor_1704070005000_z8y7x6w5v''
   \<and> fst (POST ''poll-1'' (vote_request None None ''opt-3'') later_env collision_store)
       = Failure 409 ''You have already voted on this poll''"
  by (simp add: vote_defs example_defs collision_store_def later_env_def decimal.simps)

section \<open>Tallies of the read flow and of the vote flow\<close>

text \<open>
  The read flow reports the number of votes of the poll as the total. It is the sum of the
  counts it reports for the options when option identifiers are unique and every vote of
  the poll names one of the options of the poll.
\<close>

lemma indicator_sum_one:
  "distinct (map f xs) \<Longrightarrow> k \<in> set (map f xs) \<Longrightarrow>
     sum_list (map (\<lambda>x. if k = f x then 1 else 0) xs) = (1::nat)"
proof (induction xs)
  case Nil
  then show ?case by simp
next
  case (Cons a xs)
  show ?case
  proof (cases "k = f a")
    case True
    with Cons.prems have "\<forall>x\<in>set xs. k \<noteq> f x" by auto
    then have "sum_list (map (\<lambda>x. if k = f x then 1 else 0) xs) = (0::nat)"
      by (induction xs) auto
    with True show ?thesis by simp
  next
    case False
    with Cons show ?thesis by auto
  qed
qed

lemma votes_counted_once:
  assumes "distinct (map o_id os)" "\<forall>vote\<in>set vs. v_option_id vote \<in> set (map o_id os)"
  shows "sum_list (map (\<lambda>option. length (filter (\<lambda>vote. v_option_id vote = o_id option) vs)) os)
           = length vs"
  using assms(2)
proof (induction vs)
  case Nil
  then show ?case by simp
next
  case (Cons v vs)
  have "sum_list (map (\<lambda>option. length (filter (\<lambda>vote. v_option_id vote = o_id option) (v # vs))) os)
      = sum_list (map (\<lambda>option. (if v_option_id v = o_id option then 1 else 0)
            + length (filter (\<lambda>vote. v_option_id vote = o_id option) vs)) os)"
    by (intro arg_cong[where f = sum_list] map_cong) auto
  also have "\<dots> = sum_list (map (\<lambda>option. if v_option_id v = o_id option then 1 else 0) os)
      + sum_list (map (\<lambda>option. length (filter (\<lambda>vote. v_option_id vote = o_id option) vs)) os)"
    by (simp add: sum_list_addf)
  also have "\<dots> = 1 + length vs"
    using indicator_sum_one[OF assms(1), of "v_option_id v"] Cons by simp
  finally show ?case by simp
qed

lemma sum_list_sort_key: "sum_list (map f (sort_key k xs)) = (sum_list (map f xs) :: nat)"
proof -
  have "mset (map f (sort_key k xs)) = mset (map f xs)" by simp
  then show ?thesis by (metis sum_mset_sum_list)
qed

lemma GET_total:
  assumes "options_key s" "votes_attributed s" "GET pollId fails s = Success poll cs"
  shows "totalVotes poll = sum_list (map voteCount (ps_options poll))"
proof -
  from assms(3) obtain row poll_options poll_votes where
    sel: "select_poll_options_votes fails s pollId = Inr (row, poll_options, poll_votes)"
    by (cases "select_poll_options_votes fails s pollId") (auto simp add: GET_def)
  then have po: "poll_options = filter (\<lambda>option. o_poll_id option = p_id row) (options s)"
    and pv: "poll_votes = filter (\<lambda>v. v_poll_id v = p_id row) (votes s)"
    by (auto simp add: select_poll_options_votes_def split: if_splits sum.splits)
  have d: "distinct (map o_id poll_options)"
    using assms(1) unfolding po options_key_def by (rule distinct_map_filter)
  have a: "\<forall>vote\<in>set poll_votes. v_option_id vote \<in> set (map o_id poll_options)"
  proof
    fix vote assume "vote \<in> set poll_votes"
    then have v: "vote \<in> set (votes s)" "v_poll_id vote = p_id row" by (simp_all add: pv)
    with assms(2) obtain option where "option \<in> set (options s)"
      "o_id option = v_option_id vote" "o_poll_id option = v_poll_id vote"
      unfolding votes_attributed_def by blast
    with v have "option \<in> set poll_options" by (simp add: po)
    with \<open>o_id option = v_option_id vote\<close> show "v_option_id vote \<in> set (map o_id poll_options)"
      by force
  qed
  from assms(3) sel have t: "totalVotes poll = length poll_votes"
    and o: "map voteCount (ps_options poll)
      = map (\<lambda>option. length (filter (\<lambda>vote. v_option_id vote = o_id option) poll_votes))
          (sort_key o_position poll_options)"
    by (auto simp add: GET_def Let_def comp_def)
  show ?thesis unfolding t o sum_list_sort_key using votes_counted_once[OF d a] by simp
qed

lemma POST_cast_counts_one:
  assumes "fst (POST_cast pollId c env s) = Success tally cs"
  shows "map vo_votes (pt_options tally)
           = replicate (length (filter (\<lambda>option. o_poll_id option = pollId) (options s))) 1
       \<and> pt_totalVotes tally = length (filter (\<lambda>option. o_poll_id option = pollId) (options s))"
proof -
  let ?d = "\<lparr>vd_poll_id = pollId, vd_option_id = cv_optionId c, vd_visitor_id = cv_visitorId c\<rparr>"
  from assms obtain s' where
    i: "insert_vote (vote_insert_fails env) (new_vote_id env) (db_now env) ?d s = Inr s'"
    by (cases "insert_vote (vote_insert_fails env) (new_vote_id env) (db_now env) ?d s")
      (auto simp add: POST_cast_def)
  then have o: "options s' = options s" by (auto simp add: insert_vote_def split: if_splits)
  from assms i obtain results where
    r: "select_options_vote_count (results_query_fails env) s' pollId = Inr results"
    by (cases "select_options_vote_count (results_query_fails env) s' pollId")
      (auto simp add: POST_cast_def)
  then have l: "map (\<lambda>(option, option_votes). length option_votes) results
      = replicate (length (filter (\<lambda>option. o_poll_id option = pollId) (options s))) (1::nat)"
    by (auto simp add: select_options_vote_count_def o comp_def map_replicate_const
        split: if_splits)
  from assms i r have v: "map vo_votes (pt_options tally)
      = map (\<lambda>(option, option_votes). length option_votes) results"
    and t: "pt_totalVotes tally = totalVotes_of (pt_options tally)"
    by (auto simp add: POST_cast_def Let_def totalVotes_of_def comp_def split_def)
  from v l have m: "map vo_votes (pt_options tally)
      = replicate (length (filter (\<lambda>option. o_poll_id option = pollId) (options s))) 1"
    by simp
  with t show ?thesis by (simp add: totalVotes_of_sum sum_list_replicate)
qed

lemma POST_counts_one:
  assumes "fst (POST pollId req env s) = Success tally cs"
  shows "map vo_votes (pt_options tally)
           = replicate (length (filter (\<lambda>option. o_poll_id option = pollId) (options s))) 1
       \<and> pt_totalVotes tally = length (filter (\<lambda>option. o_poll_id option = pollId) (options s))"
proof (cases "POST_check pollId req env s")
  case (Inl early)
  with assms have "POST_check pollId req env s = Inl (Success tally cs)" by (simp add: POST_def)
  then show ?thesis
    by (auto simp add: POST_check_def split: json_body.splits sum.splits zod_error.splits prod.splits option.splits)
next
  case (Inr c)
  with assms have "fst (POST_cast pollId c env s) = Success tally cs" by (simp add: POST_def)
  then show ?thesis by (rule POST_cast_counts_one)
qed


section \<open>Poll edit\<close>

lemma inserted_rows:
  "map (\<lambda>(k, d). \<lparr>o_id = gen k, o_poll_id = od_poll_id d, o_text = od_text d,
                    o_position = od_position d\<rparr>)
     (enumerate 0 (map (\<lambda>(index, text). \<lparr>od_poll_id = pollId, od_text = text,
                                            od_position = int index\<rparr>) (enumerate 0 opts)))
   = map (\<lambda>k. \<lparr>o_id = gen k, o_poll_id = pollId, o_text = opts ! k, o_position = int k\<rparr>)
       [0..<length opts]"
  by (rule nth_equalityI) (simp_all add: nth_enumerate_eq)

lemma PUT_Success:
  assumes "PUT pollId req env s = (Success message cs, s')"
  shows "\<exists>question opts. body req = PollJson question opts
     \<and> updatePollSchema_parse (body req) = Inr (question, opts)
     \<and> polls s' = map (\<lambda>p. if p_id p = pollId then p\<lparr>p_question := question\<rparr> else p) (polls s)
     \<and> options s' = filter (\<lambda>option. o_poll_id option \<noteq> pollId) (options s)
          @ map (\<lambda>k. \<lparr>o_id = gen_random_uuid env k, o_poll_id = pollId, o_text = opts ! k,
                       o_position = int k\<rparr>) [0..<length opts]
     \<and> votes s' = filter (\<lambda>v. v_option_id v \<notin> set (map o_id (filter (\<lambda>option. o_poll_id option = pollId) (options s)))) (votes s)
     \<and> (\<forall>k<length opts. gen_random_uuid env k \<notin> set (map o_id (filter (\<lambda>option. o_poll_id option \<noteq> pollId) (options s))))"
proof -
  from assms obtain user where u: "getUser (auth_fails env) req = Some user"
    by (cases "getUser (auth_fails env) req") (auto simp add: PUT_def)
  from assms u obtain existingPoll where
    e: "select_poll_owner (owner_query_fails env) s pollId = Inr existingPoll"
    by (cases "select_poll_owner (owner_query_fails env) s pollId") (auto simp add: PUT_def)
  from assms u e have own: "p_user_id existingPoll = user"
    by (auto simp add: PUT_def split: if_splits)
  from assms u e own obtain question opts where z: "updatePollSchema_parse (body req) = Inr (question, opts)"
    by (cases "updatePollSchema_parse (body req)")
      (auto simp add: PUT_def split: json_body.splits zod_error.splits)
  then have b: "body req = PollJson question opts"
    by (auto simp add: updatePollSchema_parse_def split: json_body.splits if_splits)
  from assms u e own z b obtain s1 where
    s1: "update_question (question_update_fails env) pollId question s = Inr s1"
    by (cases "update_question (question_update_fails env) pollId question s")
      (auto simp add: PUT_def)
  from assms u e own z b s1 obtain s2 where
    s2: "delete_options (options_delete_fails env) pollId s1 = Inr s2"
    by (cases "delete_options (options_delete_fails env) pollId s1")
      (auto simp add: PUT_def)
  let ?data = "map (\<lambda>(index, text). \<lparr>od_poll_id = pollId, od_text = text, od_position = int index\<rparr>)
                 (enumerate 0 opts)"
  from assms u e own z b s1 s2 have
    s3: "insert_options (options_insert_fails env) (gen_random_uuid env) ?data s2 = Inr s'"
    by (cases "insert_options (options_insert_fails env) (gen_random_uuid env) ?data s2")
      (auto simp add: PUT_def Let_def)
  from s1 have s1': "s1 = s\<lparr>polls := map (\<lambda>p. if p_id p = pollId then p\<lparr>p_question := question\<rparr> else p) (polls s)\<rparr>"
    by (auto simp add: update_question_def split: if_splits)
  from s2 have s2': "s2 = s1\<lparr>options := filter (\<lambda>option. o_poll_id option \<noteq> pollId) (options s1),
      votes := filter (\<lambda>v. v_option_id v \<notin> set (map o_id (filter (\<lambda>option. o_poll_id option = pollId) (options s1)))) (votes s1)\<rparr>"
    by (auto simp add: delete_options_def Let_def split: if_splits)
  let ?rows = "map (\<lambda>k. \<lparr>o_id = gen_random_uuid env k, o_poll_id = pollId, o_text = opts ! k,
                       o_position = int k\<rparr>) [0..<length opts]"
  from s3 have s3': "s' = s2\<lparr>options := options s2 @ ?rows\<rparr>"
    and pk: "\<not> (\<exists>r\<in>set ?rows. o_id r \<in> set (map o_id (options s2)))"
    unfolding insert_options_def inserted_rows Let_def by (auto split: if_splits)
  from pk have fresh: "\<forall>k<length opts. gen_random_uuid env k \<notin> set (map o_id (filter (\<lambda>option. o_poll_id option \<noteq> pollId) (options s)))"
    by (auto simp add: s2' s1')
  show ?thesis
    apply (rule exI[of _ question], rule exI[of _ opts])
    using fresh z by (simp add: b s3' s2' s1')
qed


lemma distinct_key_eq:
  "distinct (map f xs) \<Longrightarrow> x \<in> set xs \<Longrightarrow> y \<in> set xs \<Longrightarrow> f x = f y \<Longrightarrow> x = y"
  by (meson distinct_map inj_onD)

lemmas update_defs = PUT_def getUser_def select_poll_owner_def single_def updatePollSchema_parse_def
  update_question_def delete_options_def insert_options_def enumerate_eq_zip Let_def

lemmas update_example_defs = example_store_def update_request_def example_update_env_def
  updated_store_def

text \<open>
  C7: after a successful edit the question of the poll is the submitted one, the option
  rows the poll had are gone, and the poll has one new row for each submitted text, in
  order, at the positions 0 to n - 1, under the identifiers the store has drawn; when
  none of these draws repeats the identifier of a deleted row, no identifier the poll's
  options had is the identifier of an option afterwards.
\<close>

theorem updatePoll_replaces_options:
  "PUT pollId req env s = (Success message cs, s') \<longrightarrow>
     (\<exists>question opts. body req = PollJson question opts
        \<and> polls s' = map (\<lambda>p. if p_id p = pollId then p\<lparr>p_question := question\<rparr> else p) (polls s)
        \<and> options s' = filter (\<lambda>option. o_poll_id option \<noteq> pollId) (options s)
             @ map (\<lambda>k. \<lparr>o_id = gen_random_uuid env k, o_poll_id = pollId, o_text = opts ! k,
                          o_position = int k\<rparr>) [0..<length opts]
        \<and> (options_key s
             \<and> (\<forall>k<length opts. gen_random_uuid env k
                    \<notin> set (map o_id (filter (\<lambda>option. o_poll_id option = pollId) (options s))))
           \<longrightarrow> (\<forall>option\<in>set (options s). o_poll_id option = pollId
                    \<longrightarrow> o_id option \<notin> set (map o_id (options s')))))"
proof
  assume "PUT pollId req env s = (Success message cs, s')"
  from PUT_Success[OF this] obtain question opts where
    b: "body req = PollJson question opts"
    and p: "polls s' = map (\<lambda>p. if p_id p = pollId then p\<lparr>p_question := question\<rparr> else p) (polls s)"
    and o: "options s' = filter (\<lambda>option. o_poll_id option \<noteq> pollId) (options s)
             @ map (\<lambda>k. \<lparr>o_id = gen_random_uuid env k, o_poll_id = pollId, o_text = opts ! k,
                          o_position = int k\<rparr>) [0..<length opts]"
    by blast
  have "\<forall>option\<in>set (options s). o_poll_id option = pollId
          \<longrightarrow> o_id option \<notin> set (map o_id (options s'))"
    if key: "options_key s"
      and fresh: "\<forall>k<length opts. gen_random_uuid env k
                    \<notin> set (map o_id (filter (\<lambda>option. o_poll_id option = pollId) (options s)))"
  proof (intro ballI impI notI)
    fix option assume old: "option \<in> set (options s)" "o_poll_id option = pollId"
      and "o_id option \<in> set (map o_id (options s'))"
    then consider other where "other \<in> set (options s)" "o_poll_id other \<noteq> pollId"
        "o_id other = o_id option"
      | k where "k < length opts" "gen_random_uuid env k = o_id option"
      unfolding o by auto
    then show False
    proof cases
      case 1
      with key old have "other = option" unfolding options_key_def
        by (auto intro: distinct_key_eq)
      with 1 old show False by simp
    next
      case 2
      with fresh old show False by force
    qed
  qed
  with b p o show "\<exists>question opts. body req = PollJson question opts
        \<and> polls s' = map (\<lambda>p. if p_id p = pollId then p\<lparr>p_question := question\<rparr> else p) (polls s)
        \<and> options s' = filter (\<lambda>option. o_poll_id option \<noteq> pollId) (options s)
             @ map (\<lambda>k. \<lparr>o_id = gen_random_uuid env k, o_poll_id = pollId, o_text = opts ! k,
                          o_position = int k\<rparr>) [0..<length opts]
        \<and> (options_key s
             \<and> (\<forall>k<length opts. gen_random_uuid env k
                    \<notin> set (map o_id (filter (\<lambda>option. o_poll_id option = pollId) (options s))))
           \<longrightarrow> (\<forall>option\<in>set (options s). o_poll_id option = pollId
                    \<longrightarrow> o_id option \<notin> set (map o_id (options s'))))"
    by blast
qed

lemma example_update:
  "PUT ''poll-1'' update_request example_update_env example_store
     = (Success ''Poll updated successfully'' [], updated_store)"
  by (simp add: update_defs update_example_defs decimal.simps)

theorem updatePoll_replaces_options_witness:
  "PUT ''poll-1'' update_request example_update_env example_store
     = (Success ''Poll updated successfully'' [], updated_store)
   \<and> body update_request = PollJson ''Best library?'' [''Svelte'', ''Solid'']
   \<and> map p_question (polls updated_store) = [''Best library?'', ''Tabs or spaces?'']
   \<and> map o_id (filter (\<lambda>option. o_poll_id option = ''poll-1'') (options example_store))
       = [''opt-1'', ''opt-2'', ''opt-3'']
   \<and> filter (\<lambda>option. o_poll_id option = ''poll-1'') (options updated_store)
       = [\<lparr>o_id = ''new-0'', o_poll_id = ''poll-1'', o_text = ''Svelte'', o_position = 0\<rparr>,
          \<lparr>o_id = ''new-1'', o_poll_id = ''poll-1'', o_text = ''Solid'', o_position = 1\<rparr>]
   \<and> options_key example_store
   \<and> ''opt-1'' \<notin> set (map o_id (options updated_store))
   \<and> ''opt-2'' \<notin> set (map o_id (options updated_store))
   \<and> ''opt-3'' \<notin> set (map o_id (options updated_store))"
proof -
  have put: "PUT ''poll-1'' update_request example_update_env example_store
     = (Success ''Poll updated successfully'' [], updated_store)"
    by (rule example_update)
  with updatePoll_replaces_options[of "''poll-1''" update_request example_update_env example_store
      "''Poll updated successfully''" "[]" updated_store]
  obtain question opts where b: "body update_request = PollJson question opts"
    and np: "options_key example_store
             \<and> (\<forall>k<length opts. gen_random_uuid example_update_env k
                    \<notin> set (map o_id (filter (\<lambda>option. o_poll_id option = ''poll-1'') (options example_store))))
           \<longrightarrow> (\<forall>option\<in>set (options example_store). o_poll_id option = ''poll-1''
                    \<longrightarrow> o_id option \<notin> set (map o_id (options updated_store)))"
    by blast
  from b have opts: "opts = [''Svelte'', ''Solid'']" by (simp add: update_request_def)
  have key: "options_key example_store" by (simp add: options_key_def example_store_def)
  have fresh: "\<forall>k<length opts. gen_random_uuid example_update_env k
      \<notin> set (map o_id (filter (\<lambda>option. o_poll_id option = ''poll-1'') (options example_store)))"
    unfolding opts by (simp add: example_update_env_def example_store_def)
  from np key fresh have "\<forall>option\<in>set (options example_store). o_poll_id option = ''poll-1''
      \<longrightarrow> o_id option \<notin> set (map o_id (options updated_store))" by blast
  then have gone: "''opt-1'' \<notin> set (map o_id (options updated_store))
      \<and> ''opt-2'' \<notin> set (map o_id (options updated_store))
      \<and> ''opt-3'' \<notin> set (map o_id (options updated_store))"
    by (simp add: example_store_def)
  have "body update_request = PollJson ''Best library?'' [''Svelte'', ''Solid'']
   \<and> map p_question (polls updated_store) = [''Best library?'', ''Tabs or spaces?'']
   \<and> map o_id (filter (\<lambda>option. o_poll_id option = ''poll-1'') (options example_store))
       = [''opt-1'', ''opt-2'', ''opt-3'']
   \<and> filter (\<lambda>option. o_poll_id option = ''poll-1'') (options updated_store)
       = [\<lparr>o_id = ''new-0'', o_poll_id = ''poll-1'', o_text = ''Svelte'', o_position = 0\<rparr>,
          \<lparr>o_id = ''new-1'', o_poll_id = ''poll-1'', o_text = ''Solid'', o_position = 1\<rparr>]"
    by (simp add: update_example_defs)
  with put key gone show ?thesis by blast
qed

lemma PUT_to_update:
  assumes "getUser (auth_fails env) req = Some user"
    "select_poll_owner (owner_query_fails env) s pollId = Inr existingPoll"
    "p_user_id existingPoll = user"
    "updatePollSchema_parse (body req) = Inr (question, opts)"
    "update_question (question_update_fails env) pollId question s = Inr s1"
  shows "PUT pollId req env s =
     (case delete_options (options_delete_fails env) pollId s1 of
        Inl deleteOptionsError \<Rightarrow> (Failure 500 ''Failed to update poll options'', s1)
      | Inr s2 \<Rightarrow>
          (case insert_options (options_insert_fails env) (gen_random_uuid env)
                  (map (\<lambda>(index, text). \<lparr>od_poll_id = pollId, od_text = text,
                                           od_position = int index\<rparr>) (enumerate 0 opts)) s2 of
             Inl optionsError \<Rightarrow> (Failure 500 ''Failed to create poll options'', s2)
           | Inr s3 \<Rightarrow> (Success ''Poll updated successfully'' [], s3)))"
proof -
  from assms(4) have "body req = PollJson question opts"
    by (auto simp add: updatePollSchema_parse_def split: json_body.splits if_splits)
  with assms show ?thesis by (simp add: PUT_def Let_def cong: sum.case_cong)
qed

text \<open>
  C10: the edit is not atomic. Once the update of the question has succeeded, a failure
  of the delete of the options is answered with a storage error while the store keeps the
  new question (and the old options); a failure of the insert of the new options is
  answered with a storage error while the store keeps the new question and the poll has
  no option left.
\<close>

theorem updatePoll_not_atomic:
  "getUser (auth_fails env) req = Some user
   \<and> select_poll_owner (owner_query_fails env) s pollId = Inr existingPoll
   \<and> p_user_id existingPoll = user
   \<and> updatePollSchema_parse (body req) = Inr (question, opts)
   \<and> update_question (question_update_fails env) pollId question s = Inr s1
   \<longrightarrow>
     polls s1 = map (\<lambda>p. if p_id p = pollId then p\<lparr>p_question := question\<rparr> else p) (polls s)
     \<and> (delete_options (options_delete_fails env) pollId s1 = Inl e
        \<longrightarrow> PUT pollId req env s = (Failure 500 ''Failed to update poll options'', s1)
            \<and> options s1 = options s)
     \<and> (delete_options (options_delete_fails env) pollId s1 = Inr s2
         \<and> insert_options (options_insert_fails env) (gen_random_uuid env)
              (map (\<lambda>(index, text). \<lparr>od_poll_id = pollId, od_text = text,
                                       od_position = int index\<rparr>) (enumerate 0 opts)) s2 = Inl e
        \<longrightarrow> PUT pollId req env s = (Failure 500 ''Failed to create poll options'', s2)
            \<and> polls s2 = polls s1
            \<and> filter (\<lambda>option. o_poll_id option = pollId) (options s2) = [])"
proof (intro impI, elim conjE)
  assume a: "getUser (auth_fails env) req = Some user"
    "select_poll_owner (owner_query_fails env) s pollId = Inr existingPoll"
    "p_user_id existingPoll = user"
    "updatePollSchema_parse (body req) = Inr (question, opts)"
    "update_question (question_update_fails env) pollId question s = Inr s1"
  note put = PUT_to_update[OF a]
  from a(5) have s1: "s1 = s\<lparr>polls := map (\<lambda>p. if p_id p = pollId then p\<lparr>p_question := question\<rparr> else p) (polls s)\<rparr>"
    by (auto simp add: update_question_def split: if_splits)
  have del: "polls s2 = polls s1 \<and> filter (\<lambda>option. o_poll_id option = pollId) (options s2) = []"
    if "delete_options (options_delete_fails env) pollId s1 = Inr s2"
    using that by (auto simp add: delete_options_def Let_def filter_empty_conv split: if_splits)
  show "polls s1 = map (\<lambda>p. if p_id p = pollId then p\<lparr>p_question := question\<rparr> else p) (polls s)
     \<and> (delete_options (options_delete_fails env) pollId s1 = Inl e
        \<longrightarrow> PUT pollId req env s = (Failure 500 ''Failed to update poll options'', s1)
            \<and> options s1 = options s)
     \<and> (delete_options (options_delete_fails env) pollId s1 = Inr s2
         \<and> insert_options (options_insert_fails env) (gen_random_uuid env)
              (map (\<lambda>(index, text). \<lparr>od_poll_id = pollId, od_text = text,
                                       od_position = int index\<rparr>) (enumerate 0 opts)) s2 = Inl e
        \<longrightarrow> PUT pollId req env s = (Failure 500 ''Failed to create poll options'', s2)
            \<and> polls s2 = polls s1
            \<and> filter (\<lambda>option. o_poll_id option = pollId) (options s2) = [])"
    using del by (auto simp add: put s1)
qed

theorem updatePoll_not_atomic_witness:
  "PUT ''poll-1'' update_request (example_update_env\<lparr>options_delete_fails := True\<rparr>) example_store
     = (Failure 500 ''Failed to update poll options'', question_updated_store)
   \<and> map p_question (polls question_updated_store) = [''Best library?'', ''Tabs or spaces?'']
   \<and> options question_updated_store = options example_store
   \<and> PUT ''poll-1'' update_request (example_update_env\<lparr>options_insert_fails := True\<rparr>) example_store
     = (Failure 500 ''Failed to create poll options'', options_deleted_store)
   \<and> map p_question (polls options_deleted_store) = [''Best library?'', ''Tabs or spaces?'']
   \<and> filter (\<lambda>option. o_poll_id option = ''poll-1'') (options options_deleted_store) = []"
proof -
  let ?env1 = "example_update_env\<lparr>options_delete_fails := True\<rparr>"
  let ?env2 = "example_update_env\<lparr>options_insert_fails := True\<rparr>"
  let ?row = "\<lparr>p_id = ''poll-1'', p_user_id = ''user-1'', p_question = ''Best framework?'',
          p_created_at = 1704067200\<rparr>"
  let ?data = "map (\<lambda>(index, text). \<lparr>od_poll_id = ''poll-1'', od_text = text,
                 od_position = int index\<rparr>) (enumerate 0 [''Svelte'', ''Solid''])"
  have h1: "getUser (auth_fails ?env1) update_request = Some ''user-1''
    \<and> select_poll_owner (owner_query_fails ?env1) example_store ''poll-1'' = Inr ?row
    \<and> p_user_id ?row = ''user-1''
    \<and> updatePollSchema_parse (body update_request) = Inr (''Best library?'', [''Svelte'', ''Solid''])
    \<and> update_question (question_update_fails ?env1) ''poll-1'' ''Best library?'' example_store
        = Inr question_updated_store"
    by (simp add: update_defs update_example_defs question_updated_store_def
        options_deleted_store_def)
  have d1: "delete_options (options_delete_fails ?env1) ''poll-1'' question_updated_store = Inl Unreachable"
    by (simp add: delete_options_def example_update_env_def)
  have h2: "getUser (auth_fails ?env2) update_request = Some ''user-1''
    \<and> select_poll_owner (owner_query_fails ?env2) example_store ''poll-1'' = Inr ?row
    \<and> p_user_id ?row = ''user-1''
    \<and> updatePollSchema_parse (body update_request) = Inr (''Best library?'', [''Svelte'', ''Solid''])
    \<and> update_question (question_update_fails ?env2) ''poll-1'' ''Best library?'' example_store
        = Inr question_updated_store"
    by (simp add: update_defs update_example_defs question_updated_store_def
        options_deleted_store_def)
  have d2: "delete_options (options_delete_fails ?env2) ''poll-1'' question_updated_store
      = Inr options_deleted_store"
    by (simp add: update_defs update_example_defs question_updated_store_def
        options_deleted_store_def)
  have i2: "insert_options (options_insert_fails ?env2) (gen_random_uuid ?env2) ?data
      options_deleted_store = Inl Unreachable"
    by (simp add: insert_options_def example_update_env_def Let_def)
  from updatePoll_not_atomic[where env = ?env1 and req = update_request and user = "''user-1''"
      and s = example_store and pollId = "''poll-1''" and existingPoll = ?row
      and question = "''Best library?''" and opts = "[''Svelte'', ''Solid'']"
      and ?s1.0 = question_updated_store and e = Unreachable and ?s2.0 = options_deleted_store]
    h1 d1
  have r1: "PUT ''poll-1'' update_request ?env1 example_store
     = (Failure 500 ''Failed to update poll options'', question_updated_store)
     \<and> options question_updated_store = options example_store"
    by blast
  from updatePoll_not_atomic[where env = ?env2 and req = update_request and user = "''user-1''"
      and s = example_store and pollId = "''poll-1''" and existingPoll = ?row
      and question = "''Best library?''" and opts = "[''Svelte'', ''Solid'']"
      and ?s1.0 = question_updated_store and e = Unreachable and ?s2.0 = options_deleted_store]
    h2 d2 i2
  have r2: "PUT ''poll-1'' update_request ?env2 example_store
     = (Failure 500 ''Failed to create poll options'', options_deleted_store)
     \<and> filter (\<lambda>option. o_poll_id option = ''poll-1'') (options options_deleted_store) = []"
    by blast
  have "map p_question (polls question_updated_store) = [''Best library?'', ''Tabs or spaces?'']
    \<and> map p_question (polls options_deleted_store) = [''Best library?'', ''Tabs or spaces?'']"
    by (simp add: update_example_defs question_updated_store_def
        options_deleted_store_def)
  with r1 r2 show ?thesis by blast
qed

section \<open>The handlers preserve the store invariant\<close>

lemma insert_vote_Inr:
  assumes "insert_vote fails new_id now d s = Inr s'"
  shows "s' = s\<lparr>votes := votes s @ [\<lparr>v_id = new_id, v_poll_id = vd_poll_id d,
              v_option_id = vd_option_id d, v_visitor_id = vd_visitor_id d, v_created_at = now\<rparr>]\<rparr>"
    and "\<forall>v\<in>set (votes s). (v_poll_id v, v_visitor_id v) \<noteq> (vd_poll_id d, vd_visitor_id d)"
  using assms by (auto simp add: insert_vote_def split: if_splits)

lemma insert_vote_invariant:
  assumes "store_invariant s" "insert_vote fails new_id now d s = Inr s'"
    "\<exists>option\<in>set (options s). o_id option = vd_option_id d \<and> o_poll_id option = vd_poll_id d"
  shows "store_invariant s'"
proof -
  note i = insert_vote_Inr[OF assms(2)]
  have "options_key s'" using assms(1) by (simp add: i(1) store_invariant_def options_key_def)
  moreover have "votes_unique s'"
    using assms(1) i(2) by (auto simp add: i(1) store_invariant_def votes_unique_def)
  moreover have "votes_attributed s'"
    using assms(1,3) by (auto simp add: i(1) store_invariant_def votes_attributed_def)
  ultimately show ?thesis by (simp add: store_invariant_def)
qed

lemma POST_check_option:
  assumes "POST_check pollId req env s = Inr c"
  shows "\<exists>option\<in>set (options s). o_id option = cv_optionId c \<and> o_poll_id option = pollId"
proof -
  from POST_check_Inr[OF assms] obtain poll_options where
    p: "select_poll_options (poll_query_fails env) s pollId = Inr (cv_poll c, poll_options)"
    and m: "cv_optionId c \<in> set (map o_id poll_options)" by blast
  from p have "filter (\<lambda>p. p_id p = pollId) (polls s) = [cv_poll c]"
    and po: "poll_options = filter (\<lambda>option. o_poll_id option = p_id (cv_poll c)) (options s)"
    by (auto simp add: select_poll_options_def single_Inr_iff split: if_splits sum.splits)
  then have "cv_poll c \<in> set (filter (\<lambda>p. p_id p = pollId) (polls s))" by simp
  then have "p_id (cv_poll c) = pollId" by simp
  with m po show ?thesis by auto
qed

lemma POST_invariant:
  assumes "store_invariant s"
  shows "store_invariant (snd (POST pollId req env s))"
proof (cases "POST_check pollId req env s")
  case (Inl early)
  with assms show ?thesis by (simp add: POST_def)
next
  case (Inr c)
  let ?d = "\<lparr>vd_poll_id = pollId, vd_option_id = cv_optionId c, vd_visitor_id = cv_visitorId c\<rparr>"
  show ?thesis
  proof (cases "insert_vote (vote_insert_fails env) (new_vote_id env) (db_now env) ?d s")
    case (Inl e)
    with Inr assms show ?thesis by (simp add: POST_def POST_cast_def)
  next
    case i: (Inr s')
    from POST_check_option[OF Inr] have "store_invariant s'"
      by (intro insert_vote_invariant[OF assms i]) simp
    moreover have "snd (POST pollId req env s) = s'"
      using Inr i by (simp add: POST_def POST_cast_def Let_def split: sum.splits)
    ultimately show ?thesis by simp
  qed
qed

lemma update_question_invariant:
  "store_invariant s \<Longrightarrow> update_question fails pollId question s = Inr s' \<Longrightarrow> store_invariant s'"
  by (auto simp add: update_question_def store_invariant_def options_key_def votes_unique_def
      votes_attributed_def split: if_splits)

lemma delete_options_invariant:
  assumes "store_invariant s" "delete_options fails pollId s = Inr s'"
  shows "store_invariant s'"
proof -
  let ?deleted = "map o_id (filter (\<lambda>option. o_poll_id option = pollId) (options s))"
  from assms(2) have s': "s' = s\<lparr>options := filter (\<lambda>option. o_poll_id option \<noteq> pollId) (options s),
      votes := filter (\<lambda>v. v_option_id v \<notin> set ?deleted) (votes s)\<rparr>"
    by (auto simp add: delete_options_def Let_def split: if_splits)
  have "options_key s'"
    using assms(1) by (simp add: s' store_invariant_def options_key_def distinct_map_filter)
  moreover have "votes_unique s'"
    using assms(1) by (simp add: s' store_invariant_def votes_unique_def distinct_map_filter)
  moreover have "votes_attributed s'"
    unfolding votes_attributed_def
  proof
    fix v assume "v \<in> set (votes s')"
    then have v: "v \<in> set (votes s)" "v_option_id v \<notin> set ?deleted" by (simp_all add: s')
    with assms(1) obtain option where o: "option \<in> set (options s)"
      "o_id option = v_option_id v" "o_poll_id option = v_poll_id v"
      unfolding store_invariant_def votes_attributed_def by blast
    with v(2) have "o_poll_id option \<noteq> pollId" by force
    with o show "\<exists>option\<in>set (options s'). o_id option = v_option_id v \<and> o_poll_id option = v_poll_id v"
      by (auto simp add: s')
  qed
  ultimately show ?thesis by (simp add: store_invariant_def)
qed

lemma distinct_map_append_fresh:
  "distinct (map f xs) \<Longrightarrow> distinct (map f rows) \<Longrightarrow> \<forall>r\<in>set rows. f r \<notin> set (map f xs)
     \<Longrightarrow> distinct (map f (xs @ rows))"
  by (auto simp add: image_iff) metis

lemma insert_options_invariant:
  assumes "store_invariant s" "insert_options fails gen optionsData s = Inr s'"
  shows "store_invariant s'"
proof -
  let ?rows = "map (\<lambda>(k, d). \<lparr>o_id = gen k, o_poll_id = od_poll_id d, o_text = od_text d,
                                  o_position = od_position d\<rparr>) (enumerate 0 optionsData)"
  from assms(2) have s': "s' = s\<lparr>options := options s @ ?rows\<rparr>"
    and d: "distinct (map o_id ?rows)"
    and n: "\<forall>r\<in>set ?rows. o_id r \<notin> set (map o_id (options s))"
    unfolding insert_options_def Let_def by (auto split: if_splits)
  from assms(1) have "distinct (map o_id (options s))"
    by (simp add: store_invariant_def options_key_def)
  from distinct_map_append_fresh[OF this d n] have "options_key s'"
    by (simp add: s' options_key_def)
  moreover have "votes_unique s'"
    using assms(1) by (simp add: s' store_invariant_def votes_unique_def)
  moreover have "votes_attributed s'"
    using assms(1) unfolding s' store_invariant_def votes_attributed_def by auto
  ultimately show ?thesis by (simp add: store_invariant_def)
qed

lemma PUT_invariant:
  assumes "store_invariant s"
  shows "store_invariant (snd (PUT pollId req env s))"
proof (cases "getUser (auth_fails env) req")
  case None
  with assms show ?thesis by (simp add: PUT_def)
next
  case (Some user)
  show ?thesis
  proof (cases "select_poll_owner (owner_query_fails env) s pollId")
    case (Inl pollError)
    with Some assms show ?thesis by (simp add: PUT_def)
  next
    case (Inr existingPoll)
    show ?thesis
    proof (cases "p_user_id existingPoll = user")
      case False
      with Some Inr assms show ?thesis by (simp add: PUT_def)
    next
      case True
      show ?thesis
      proof (cases "updatePollSchema_parse (body req)")
        case (Inl z)
        with Some Inr True assms show ?thesis
          by (cases "body req"; cases z; simp add: PUT_def)
      next
        case z: (Inr parsed)
        obtain question opts where parsed: "parsed = (question, opts)" by (cases parsed)
        from z parsed have b: "body req = PollJson question opts"
          by (auto simp add: updatePollSchema_parse_def split: json_body.splits if_splits)
        show ?thesis
        proof (cases "update_question (question_update_fails env) pollId question s")
          case (Inl updateError)
          with Some Inr True z parsed b assms show ?thesis
            by (simp add: PUT_def)
        next
          case s1: (Inr s1)
          note put = PUT_to_update[OF Some Inr True z[unfolded parsed] s1]
          have i1: "store_invariant s1" using assms s1 by (rule update_question_invariant)
          show ?thesis
          proof (cases "delete_options (options_delete_fails env) pollId s1")
            case (Inl deleteOptionsError)
            with i1 show ?thesis by (simp add: put)
          next
            case s2: (Inr s2)
            have i2: "store_invariant s2" using i1 s2 by (rule delete_options_invariant)
            show ?thesis
            proof (cases "insert_options (options_insert_fails env) (gen_random_uuid env)
                  (map (\<lambda>(index, text). \<lparr>od_poll_id = pollId, od_text = text,
                                           od_position = int index\<rparr>) (enumerate 0 opts)) s2")
              case (Inl optionsError)
              with i2 s2 show ?thesis by (simp add: put)
            next
              case s3: (Inr s3)
              have "store_invariant s3" using i2 s3 by (rule insert_options_invariant)
              with s2 s3 show ?thesis by (simp add: put)
            qed
          qed
        qed
      qed
    qed
  qed
qed

lemma empty_store_invariant: "store_invariant \<lparr>polls = [], options = [], votes = []\<rparr>"
  by (simp add: store_invariant_def options_key_def votes_unique_def votes_attributed_def)

end
